theory Spec2Isabelle
  imports Main "HOL-Library.AList" "HOL-Library.Sublist"
    "HOL-Library.Char_ord" "HOL-Library.List_Lexorder"
begin

section \<open>Python values, dictionaries and strings\<close>

text \<open>
  The scrapers build Python dictionaries whose keys are strings and whose values are
  strings, integers or \<open>None\<close>. A Python \<open>dict\<close> keeps its keys in insertion
  order and \<open>d[k] = v\<close> on an existing key keeps the key's position, which is what
  \<open>AList.update\<close> does on an association list.
\<close>

datatype pyval = Str string | Num int | NoneVal

type_synonym item = "(string \<times> pyval) list"

definition keys :: "item \<Rightarrow> string list" where
  "keys d = map fst d"

definition dict_get :: "item \<Rightarrow> string \<Rightarrow> pyval option" where
  "dict_get d k = map_of d k"

text \<open>\<open>sep.join(parts)\<close>.\<close>

fun join :: "string \<Rightarrow> string list \<Rightarrow> string" where
  "join sep [] = []"
| "join sep [x] = x"
| "join sep (x # y # ys) = x @ sep @ join sep (y # ys)"

text \<open>\<open>needle in haystack\<close> on strings: \<open>needle\<close> occurs as a contiguous substring.\<close>

fun contains :: "string \<Rightarrow> string \<Rightarrow> bool" where
  "contains [] needle = (needle = [])"
| "contains (c # cs) needle = (prefix needle (c # cs) \<or> contains cs needle)"

section \<open>Rainfall scraper (rainfall\_fg1.py)\<close>

text \<open>
  The parsed document is what BeautifulSoup hands to the scraper: a cell is the list of its
  \<open>stripped_strings\<close>, a row is the list of its \<open>th\<close>/\<open>td\<close> cells, and a table
  carries its own \<open>stripped_strings\<close> together with the rows \<open>find_all("tr")\<close> returns.
  A document is the list \<open>find_all("table")\<close> returns, in document order.
\<close>

type_synonym cell = "string list"
type_synonym row = "cell list"

record table =
  stripped_strings :: "string list"
  find_all_tr :: "row list"

definition table_matches :: "table \<Rightarrow> bool" where
  "table_matches t =
     (let txt = join '' '' (stripped_strings t)
      in contains txt ''Bil.'' \<and> contains txt ''ID Stesen'')"

text \<open>The \<open>for table in tables\<close> loop of \<open>pick_rainfall_table\<close>: the first hit returns.\<close>

fun scan_tables :: "table list \<Rightarrow> table option" where
  "scan_tables [] = None"
| "scan_tables (t # ts) = (if table_matches t then Some t else scan_tables ts)"

definition pick_rainfall_table :: "table list \<Rightarrow> table option" where
  "pick_rainfall_table tables =
     (if tables = [] then None
      else case scan_tables tables of
             Some t \<Rightarrow> Some t
           | None \<Rightarrow> Some (last tables))"

definition row_texts :: "row \<Rightarrow> string list" where
  "row_texts r = map (join '' '') r"

text \<open>
  \<open>columns = top_texts[0:5] + bottom_texts[:] + top_texts[-2:]\<close>; the slice
  \<open>xs[-2:]\<close> is the whole list when it has fewer than two elements.
\<close>

definition merge_headers :: "string list \<Rightarrow> string list \<Rightarrow> string list" where
  "merge_headers top_texts bottom_texts =
     (let base_cols = take 5 top_texts;
          date_cols = bottom_texts;
          tail_cols = drop (length top_texts - 2) top_texts
      in base_cols @ date_cols @ tail_cols)"

text \<open>
  The record of one accepted row: the two state fields first, then
  \<open>item[col_name] = value\<close> for every pair of \<open>zip(columns, tds)\<close>.
\<close>

definition make_item :: "string \<Rightarrow> string \<Rightarrow> string list \<Rightarrow> string list \<Rightarrow> item" where
  "make_item state_code state_name columns tds =
     fold (\<lambda>(col_name, v) item. AList.update col_name (Str v) item)
       (zip columns tds)
       [(''state_code'', Str state_code), (''state_name'', Str state_name)]"

text \<open>The \<open>for tr in data_rows\<close> loop, with its \<open>continue\<close> on a malformed row.\<close>

fun data_rows_loop :: "string \<Rightarrow> string \<Rightarrow> string list \<Rightarrow> row list \<Rightarrow> item list" where
  "data_rows_loop state_code state_name columns [] = []"
| "data_rows_loop state_code state_name columns (tr # rest) =
     (let tds = row_texts tr in
      if length tds \<noteq> length columns
      then data_rows_loop state_code state_name columns rest
      else make_item state_code state_name columns tds
             # data_rows_loop state_code state_name columns rest)"

definition parse_state_page :: "table list \<Rightarrow> string \<Rightarrow> string \<Rightarrow> item list" where
  "parse_state_page soup state_code state_name =
     (case pick_rainfall_table soup of
        None \<Rightarrow> []
      | Some t \<Rightarrow>
          (let all_rows = find_all_tr t in
           if length all_rows < 3 then []
           else
             (let top_texts = row_texts (all_rows ! 0);
                  bottom_texts = row_texts (all_rows ! 1);
                  data_rows = drop 2 all_rows;
                  columns = merge_headers top_texts bottom_texts
              in data_rows_loop state_code state_name columns data_rows)))"

section \<open>CSV encoding (items\_to\_csv of rainfall\_fg1.py and waterlevel\_fg1.py)\<close>

text \<open>
  What \<open>csv.writer\<close> does with its default dialect: a field is quoted when it holds the
  delimiter, the quote character or a line break, with inner quotes doubled; fields are
  joined by commas and the line ends with CR LF; a row of one empty field is written as a
  pair of quotes. \<open>None\<close> is written as the empty field and a number through \<open>str\<close>.
\<close>

datatype error = ValueError "string list" | RuntimeError string

function show_nat :: "nat \<Rightarrow> string" where
  "show_nat n =
     (if n < 10 then [char_of (48 + n)]
      else show_nat (n div 10) @ [char_of (48 + n mod 10)])"
  by pat_completeness auto
termination
  by (relation "measure id") auto

definition show_int :: "int \<Rightarrow> string" where
  "show_int i = (if i < 0 then CHR ''-'' # show_nat (nat (- i)) else show_nat (nat i))"

fun field_text :: "pyval \<Rightarrow> string" where
  "field_text (Str s) = s"
| "field_text (Num i) = show_int i"
| "field_text NoneVal = []"

definition special_chars :: "char list" where
  "special_chars = [CHR '','', CHR 0x22, CHR 0x0D, CHR 0x0A]"

definition csv_field :: "string \<Rightarrow> string" where
  "csv_field s =
     (if list_ex (\<lambda>c. c \<in> set special_chars) s
      then [CHR 0x22] @ concat (map (\<lambda>c. if c = CHR 0x22 then [c, c] else [c]) s) @ [CHR 0x22]
      else s)"

definition csv_line :: "string list \<Rightarrow> string" where
  "csv_line row_fields =
     (if row_fields = [[]] then [CHR 0x22, CHR 0x22]
      else join '','' (map csv_field row_fields))
       @ [CHR 0x0D, CHR 0x0A]"

text \<open>
  \<open>DictWriter.writerow\<close>: a key of the row that is not a field name raises
  \<open>ValueError\<close> (kept with the offending keys); a field name the row lacks is written
  as the empty string.
\<close>

definition writerow :: "string list \<Rightarrow> item \<Rightarrow> error + string" where
  "writerow fieldnames rowdict =
     (if list_ex (\<lambda>k. k \<notin> set fieldnames) (keys rowdict)
      then Inl (ValueError (filter (\<lambda>k. k \<notin> set fieldnames) (keys rowdict)))
      else Inr (csv_line (map (\<lambda>key. case dict_get rowdict key of
                                         None \<Rightarrow> []
                                       | Some v \<Rightarrow> field_text v) fieldnames)))"

fun writerows :: "string list \<Rightarrow> item list \<Rightarrow> string \<Rightarrow> error + string" where
  "writerows fieldnames [] buf = Inr buf"
| "writerows fieldnames (r # rs) buf =
     (case writerow fieldnames r of
        Inl e \<Rightarrow> Inl e
      | Inr line \<Rightarrow> writerows fieldnames rs (buf @ line))"

definition writeheader :: "string list \<Rightarrow> string" where
  "writeheader fieldnames = csv_line fieldnames"

text \<open>The two nested loops that collect the field names in first-seen order.\<close>

fun add_keys :: "string list \<Rightarrow> string list \<Rightarrow> string list" where
  "add_keys fieldnames [] = fieldnames"
| "add_keys fieldnames (key # ks) =
     add_keys (if key \<in> set fieldnames then fieldnames else fieldnames @ [key]) ks"

fun collect_fieldnames :: "string list \<Rightarrow> item list \<Rightarrow> string list" where
  "collect_fieldnames fieldnames [] = fieldnames"
| "collect_fieldnames fieldnames (item # rest) =
     collect_fieldnames (add_keys fieldnames (keys item)) rest"

text \<open>\<open>fieldnames.insert(0, fieldnames.pop(fieldnames.index(key)))\<close> when the key is there.\<close>

definition move_to_front :: "string \<Rightarrow> string list \<Rightarrow> string list" where
  "move_to_front key fieldnames =
     (if key \<in> set fieldnames then key # remove1 key fieldnames else fieldnames)"

definition csv_fieldnames :: "item list \<Rightarrow> string list" where
  "csv_fieldnames all_items =
     fold move_to_front [''state_code'', ''state_name''] (collect_fieldnames [] all_items)"

definition items_to_csv :: "item list \<Rightarrow> error + string" where
  "items_to_csv all_items =
     (if all_items = [] then Inr []
      else
        (let fieldnames = csv_fieldnames all_items
         in writerows fieldnames all_items (writeheader fieldnames)))"

section \<open>Water-level scrapers and their fallback (waterlevel\_fg1.py)\<close>

text \<open>
  \<open>str.isdigit()\<close>: at least one character, and every character is a digit. Which
  characters count as digits is decided by Python's Unicode tables, not by the
  repository, so the character test is a parameter.
\<close>

definition isdigit :: "(char \<Rightarrow> bool) \<Rightarrow> string \<Rightarrow> bool" where
  "isdigit digit s = (s \<noteq> [] \<and> list_all digit s)"

text \<open>
  The character test of Python. A character of the model stands for the code point of its
  number, so the strings of the model are the strings over the code points below 256.
  Among these \<open>str.isdigit\<close> accepts the ten decimal digits and the superscripts two,
  three and one (U+00B2, U+00B3, U+00B9), which are digits but not decimal digits.
\<close>

definition py_digit :: "char \<Rightarrow> bool" where
  "py_digit c = (c \<in> set ''0123456789'' \<or> c \<in> set [CHR 0xB2, CHR 0xB3, CHR 0xB9])"

text \<open>
  A \<open>td\<close> of the legacy page: its \<open>get_text(strip=True)\<close> and, when the cell holds
  an \<open>a\<close> element, that element's \<open>get_text(strip=True)\<close>.
\<close>

record td =
  get_text :: string
  find_a :: "string option"

text \<open>
  A scraper's result dictionary: \<open>{"error": ...}\<close> on failure,
  \<open>{"state": ..., "count": ..., "data": ...}\<close> on success; the fallback's combined
  failure carries all four keys.
\<close>

record result =
  r_state :: "string option"
  r_count :: "nat option"
  r_data :: "item list option"
  r_error :: "string option"

definition error_result :: "string \<Rightarrow> result" where
  "error_result msg = \<lparr>r_state = None, r_count = None, r_data = None, r_error = Some msg\<rparr>"

definition data_result :: "string \<Rightarrow> item list \<Rightarrow> result" where
  "data_result state_name results =
     \<lparr>r_state = Some state_name, r_count = Some (length results),
      r_data = Some results, r_error = None\<rparr>"

definition legacy_data_point :: "string \<Rightarrow> string \<Rightarrow> td list \<Rightarrow> item" where
  "legacy_data_point now state_name cells =
     [(''state_name'', Str state_name),
      (''bil'', Str (get_text (cells ! 0))),
      (''id_stesen'', Str (get_text (cells ! 1))),
      (''nama_stesen'', Str (get_text (cells ! 2))),
      (''daerah'', Str (get_text (cells ! 3))),
      (''lembangan'', Str (get_text (cells ! 4))),
      (''sub_lembangan'', Str (get_text (cells ! 5))),
      (''kemaskini_terakhir'', Str (get_text (cells ! 6))),
      (''aras_air_m'', Str (case find_a (cells ! 7) of
                              Some a \<Rightarrow> a
                            | None \<Rightarrow> get_text (cells ! 7))),
      (''ambang_normal'', Str (get_text (cells ! 8))),
      (''ambang_waspada'', Str (get_text (cells ! 9))),
      (''ambang_amaran'', Str (get_text (cells ! 10))),
      (''ambang_bahaya'', Str (get_text (cells ! 11))),
      (''scraped_timestamp'', Str now)]"

text \<open>The row loop of \<open>_scrape_state_legacy\<close>; \<open>now\<close> is the clock's ISO timestamp.\<close>

fun legacy_rows :: "(char \<Rightarrow> bool) \<Rightarrow> string \<Rightarrow> string \<Rightarrow> td list list \<Rightarrow> item list" where
  "legacy_rows digit now state_name [] = []"
| "legacy_rows digit now state_name (cells # rest) =
     (if length cells \<noteq> 12 then legacy_rows digit now state_name rest
      else if \<not> isdigit digit (get_text (cells ! 0)) then legacy_rows digit now state_name rest
      else legacy_data_point now state_name cells # legacy_rows digit now state_name rest)"

text \<open>
  What the request and the parser hand to \<open>_scrape_state_legacy\<close>: a request error, or
  the document: \<open>None\<close> when it has no table \<open>normaltable1\<close>, \<open>Some None\<close> when that
  table has no \<open>tbody\<close>, else the \<open>td\<close> cells of each row of the \<open>tbody\<close>. (The
  scraper's last \<open>except\<close> clause catches what the row loop raises; on these data the
  loop raises nothing, since a cell is indexed only after the length test.)
\<close>

datatype 'doc response = RequestException string | Document 'doc

type_synonym legacy_page = "td list list option option"

definition scrape_state_legacy ::
    "(char \<Rightarrow> bool) \<Rightarrow> string \<Rightarrow> legacy_page response \<Rightarrow> string \<Rightarrow> result" where
  "scrape_state_legacy digit now response state_name =
     (case response of
        RequestException e \<Rightarrow>
          error_result (''Legacy URL request failed for '' @ state_name @ '': '' @ e)
      | Document None \<Rightarrow>
          error_result (''No data table found for '' @ state_name @ '' (legacy URL)'')
      | Document (Some None) \<Rightarrow>
          error_result (''No table body found for '' @ state_name @ '' (legacy URL)'')
      | Document (Some (Some rows)) \<Rightarrow>
          data_result state_name (legacy_rows digit now state_name rows))"

definition new_data_point :: "string \<Rightarrow> string \<Rightarrow> string list \<Rightarrow> item" where
  "new_data_point now state_name vals =
     [(''state_name'', Str state_name),
      (''bil'', Str (vals ! 0)),
      (''id_stesen'', Str (vals ! 1)),
      (''nama_stesen'', Str (vals ! 2)),
      (''daerah'', Str (vals ! 3)),
      (''lembangan'', Str (vals ! 4)),
      (''sub_lembangan'', Str (vals ! 5)),
      (''kemaskini_terakhir'', Str (vals ! 6)),
      (''aras_air_m'', Str (vals ! 7)),
      (''ambang_normal'', Str (vals ! 8)),
      (''ambang_waspada'', Str (vals ! 9)),
      (''ambang_amaran'', Str (vals ! 10)),
      (''ambang_bahaya'', Str (vals ! 11)),
      (''scraped_timestamp'', Str now)]"

text \<open>
  The row loop of \<open>_scrape_state_new\<close>; a row is the list of the
  \<open>get_text(strip=True)\<close> of its \<open>td\<close> cells.
\<close>

fun new_rows :: "(char \<Rightarrow> bool) \<Rightarrow> string \<Rightarrow> string \<Rightarrow> string list list \<Rightarrow> item list" where
  "new_rows digit now state_name [] = []"
| "new_rows digit now state_name (vals # rest) =
     (if length vals < 12 then new_rows digit now state_name rest
      else if \<not> isdigit digit (vals ! 0) then new_rows digit now state_name rest
      else new_data_point now state_name vals # new_rows digit now state_name rest)"

definition STATE_CODE_MAP :: "(string \<times> string) list" where
  "STATE_CODE_MAP =
     [(''Perlis'', ''PLS''), (''Kedah'', ''KDH''), (''Pulau Pinang'', ''PNG''),
      (''Perak'', ''PRK''), (''Selangor'', ''SEL''),
      (''Wilayah Persekutuan Kuala Lumpur'', ''WLH''),
      (''Wilayah Persekutuan Putrajaya'', ''PTJ''), (''Negeri Sembilan'', ''NSN''),
      (''Melaka'', ''MLK''), (''Johor'', ''JHR''), (''Pahang'', ''PHG''),
      (''Terengganu'', ''TRG''), (''Kelantan'', ''KEL''), (''Sarawak'', ''SRK''),
      (''Sabah'', ''SAB''), (''Wilayah Persekutuan Labuan'', ''WLP'')]"

text \<open>
  The new endpoint's document: \<open>None\<close> when it has no table, else the rows of its
  first table (of the table's \<open>tbody\<close> when it has one). The request is made with the
  state's code, so the response is a function of the code.
\<close>

type_synonym new_page = "string list list option"

definition scrape_state_new ::
    "(char \<Rightarrow> bool) \<Rightarrow> string \<Rightarrow> (string \<Rightarrow> new_page response) \<Rightarrow> string \<Rightarrow> result" where
  "scrape_state_new digit now request state_name =
     (case map_of STATE_CODE_MAP state_name of
        None \<Rightarrow> error_result (''Unknown state name for new URL: '' @ state_name)
      | Some state_code \<Rightarrow>
          (case request state_code of
             RequestException e \<Rightarrow>
               error_result (''New URL request failed for '' @ state_name @ '': '' @ e)
           | Document None \<Rightarrow>
               error_result (''No data table found for '' @ state_name @ '' (new URL)'')
           | Document (Some rows) \<Rightarrow>
               data_result state_name (new_rows digit now state_name rows)))"

text \<open>
  \<open>scrape_state_data\<close>: the two scrapers are called in turn; the list returned beside the
  result records which scrapers were called, in call order.
  \<open>result.get("count", 0) > 0\<close> reads a missing count as 0.
\<close>

datatype source = Legacy | New

definition has_rows :: "result \<Rightarrow> bool" where
  "has_rows r = (case r_count r of None \<Rightarrow> False | Some n \<Rightarrow> n > 0)"

definition scrape_state_data ::
    "(string \<Rightarrow> result) \<Rightarrow> (string \<Rightarrow> result) \<Rightarrow> string \<Rightarrow> source list \<times> result" where
  "scrape_state_data scrape_legacy scrape_new state_name =
     (let legacy_result = scrape_legacy state_name in
      if has_rows legacy_result then ([Legacy], legacy_result)
      else
        (let new_result = scrape_new state_name in
         if has_rows new_result then ([Legacy, New], new_result)
         else
           (let error_msg = ''Unknown error'';
                error_msg = (case r_error legacy_result of
                               Some e \<Rightarrow> ''Legacy: '' @ e
                             | None \<Rightarrow> error_msg);
                error_msg = (case r_error new_result of
                               Some e \<Rightarrow> error_msg @ ''; New: '' @ e
                             | None \<Rightarrow> error_msg)
            in ([Legacy, New],
                \<lparr>r_state = Some state_name, r_count = Some 0,
                 r_data = Some [], r_error = Some error_msg\<rparr>))))"

section \<open>Fetching with retries (handler of rainfall\_fg1.py)\<close>

text \<open>
  One call of \<open>requests.get\<close> either raises or returns a response; the response is kept
  as its status code and the tables of its parsed text. The transport is a function from
  the number of the attempt to what that call does, and every call made is logged with
  its URL and timeout.
\<close>

record http_response =
  status_code :: int
  soup :: "table list"

datatype get_outcome = Raises string | Responds http_response

record get_call =
  call_url :: string
  call_timeout :: nat

definition MAX_RETRIES :: nat where
  "MAX_RETRIES = 3"

definition REQUEST_TIMEOUT :: nat where
  "REQUEST_TIMEOUT = 5"

text \<open>
  \<open>for attempt in range(1, MAX_RETRIES + 1)\<close>: a response leaves the loop
  (\<open>break\<close>), an exception goes on to the next attempt.
\<close>

fun retry_loop ::
    "(nat \<Rightarrow> get_outcome) \<Rightarrow> string \<Rightarrow> nat list \<Rightarrow> get_call list
      \<Rightarrow> http_response option \<times> get_call list" where
  "retry_loop get url [] calls = (None, calls)"
| "retry_loop get url (attempt # rest) calls =
     (let calls' = calls @ [\<lparr>call_url = url, call_timeout = REQUEST_TIMEOUT\<rparr>] in
      case get attempt of
        Responds resp \<Rightarrow> (Some resp, calls')
      | Raises e \<Rightarrow> retry_loop get url rest calls')"

text \<open>
  The body of the handler's loop for one state: the calls made, and the items the state
  contributes (none when every attempt raised, none when the status is not 200).
\<close>

definition fetch_state ::
    "(nat \<Rightarrow> get_outcome) \<Rightarrow> string \<Rightarrow> string \<Rightarrow> string \<Rightarrow> get_call list \<times> item list" where
  "fetch_state get url state_code state_name =
     (case retry_loop get url [1 ..< MAX_RETRIES + 1] [] of
        (None, calls) \<Rightarrow> (calls, [])
      | (Some resp, calls) \<Rightarrow>
          if status_code resp \<noteq> 200 then (calls, [])
          else (calls, parse_state_page (soup resp) state_code state_name))"

section \<open>Dam-level scraper and its upload (demlevel\_fg1.py)\<close>

text \<open>
  A \<open>td\<close> of the dam table: its \<open>get_text(" ", strip=True)\<close>, and the lower-cased
  \<open>style\<close> attribute of its \<open>span\<close> (of the cell itself when it has no
  \<open>span\<close>), empty when there is no such attribute.
\<close>

record dam_td =
  td_text :: string
  td_style :: string

definition COLOR_MAP :: "(string \<times> string) list" where
  "COLOR_MAP =
     [(''green'', ''Paras Normal''), (''orange'', ''Paras Waspada''),
      (''yellow'', ''Paras Amaran''), (''red'', ''Paras Kritikal'')]"

fun find_colour :: "string \<Rightarrow> string list \<Rightarrow> string option" where
  "find_colour style [] = None"
| "find_colour style (c # cs) =
     (if contains style (''background:'' @ c) \<or> contains style (''background-color:'' @ c)
      then Some c else find_colour style cs)"

definition extract_colour_and_label :: "dam_td \<Rightarrow> string option \<times> pyval" where
  "extract_colour_and_label cell =
     (let colour = find_colour (td_style cell) (map fst COLOR_MAP);
          label = (case colour of
                     None \<Rightarrow> NoneVal
                   | Some c \<Rightarrow> (case map_of COLOR_MAP c of
                                  None \<Rightarrow> NoneVal
                                | Some l \<Rightarrow> Str l))
      in (colour, label))"

text \<open>
  \<open>for i, col_name in enumerate(base_columns): if i < len(values):
  data_point[col_name] = values[i]\<close>.
\<close>

fun map_columns :: "nat \<Rightarrow> string list \<Rightarrow> string list \<Rightarrow> item \<Rightarrow> item" where
  "map_columns i [] vals data_point = data_point"
| "map_columns i (col_name # cols) vals data_point =
     map_columns (Suc i) cols vals
       (if i < length vals then AList.update col_name (Str (vals ! i)) data_point
        else data_point)"

definition dam_data_point :: "int \<Rightarrow> string \<Rightarrow> string list \<Rightarrow> dam_td list \<Rightarrow> item" where
  "dam_data_point state_id state_name base_columns tds =
     (let vals = map td_text tds;
          semalam_label = snd (extract_colour_and_label (tds ! 6));
          semasa_label = snd (extract_colour_and_label (tds ! 7));
          data_point = map_columns 0 base_columns vals [];
          data_point = AList.update ''Kategori Simpanan Semalam'' semalam_label data_point;
          data_point = AList.update ''Kategori Simpanan Semasa'' semasa_label data_point;
          data_point = AList.update ''state_id'' (Num state_id) data_point;
          data_point = AList.update ''state_name'' (Str state_name) data_point
      in data_point)"

fun dam_rows :: "int \<Rightarrow> string \<Rightarrow> string list \<Rightarrow> dam_td list list \<Rightarrow> item list" where
  "dam_rows state_id state_name base_columns [] = []"
| "dam_rows state_id state_name base_columns (tds # rest) =
     (if tds = [] then dam_rows state_id state_name base_columns rest
      else if length tds < 8 then dam_rows state_id state_name base_columns rest
      else dam_data_point state_id state_name base_columns tds
             # dam_rows state_id state_name base_columns rest)"

text \<open>
  The result dictionary of one state, for the dam-level and the water-quality scrapers:
  the state's id and name, and either an error or the count and the rows.
\<close>

record state_result =
  s_error :: "string option"
  s_state_id :: int
  s_state_name :: string
  s_count :: "nat option"
  s_data :: "item list option"

text \<open>
  The dam page as parsed: the table of class \<open>table\<close> if any, with the \<open>th\<close> texts of
  its \<open>thead\<close> if any and the rows of its \<open>tbody\<close> if any.
\<close>

record dam_table =
  thead :: "string list option"
  tbody :: "dam_td list list option"

definition scrape_dam_data :: "dam_table option response \<Rightarrow> int \<Rightarrow> string \<Rightarrow> state_result" where
  "scrape_dam_data resp state_id state_name =
     (let failed = (\<lambda>msg. \<lparr>s_error = Some msg, s_state_id = state_id,
                              s_state_name = state_name, s_count = None, s_data = None\<rparr>)
      in case resp of
           RequestException e \<Rightarrow>
             failed (''Request failed for '' @ state_name @ '' (ID='' @ show_int state_id
                       @ ''): '' @ e)
         | Document None \<Rightarrow>
             failed (''No dam table found for '' @ state_name @ '' (ID='' @ show_int state_id
                       @ '')'')
         | Document (Some t) \<Rightarrow>
             (case thead t of
                None \<Rightarrow> failed (''No table header found for '' @ state_name)
              | Some base_columns \<Rightarrow>
                  (case tbody t of
                     None \<Rightarrow> failed (''No table body found for '' @ state_name)
                   | Some rows \<Rightarrow>
                       (let results = dam_rows state_id state_name base_columns rows
                        in \<lparr>s_error = None, s_state_id = state_id, s_state_name = state_name,
                            s_count = Some (length results), s_data = Some results\<rparr>))))"

text \<open>
  \<open>save_to_obs\<close>: the rows of all results are flattened, the field names are taken from
  the first row with the extra columns moved to the end, and the CSV text is written only
  when there are field names. The same block, with other extra columns, is in
  waterquality\_fg1.py.
\<close>

definition flatten_results :: "state_result list \<Rightarrow> item list" where
  "flatten_results results =
     concat (map (\<lambda>r. case s_data r of Some rows \<Rightarrow> rows | None \<Rightarrow> []) results)"

definition first_row_fieldnames :: "string list \<Rightarrow> item list \<Rightarrow> string list" where
  "first_row_fieldnames extra_cols rows =
     (case rows of
        [] \<Rightarrow> []
      | first_row # _ \<Rightarrow>
          filter (\<lambda>k. k \<notin> set extra_cols) (keys first_row)
            @ filter (\<lambda>c. c \<in> set (keys first_row)) extra_cols)"

definition build_csv :: "string list \<Rightarrow> item list \<Rightarrow> error + string" where
  "build_csv extra_cols rows =
     (let fieldnames = first_row_fieldnames extra_cols rows in
      if fieldnames \<noteq> [] then writerows fieldnames rows (writeheader fieldnames)
      else Inr [])"

definition demlevel_extra_cols :: "string list" where
  "demlevel_extra_cols =
     [''Kategori Simpanan Semalam'', ''Kategori Simpanan Semasa'', ''state_id'', ''state_name'']"

text \<open>
  The object store either raises or answers with a status, an error code and an error
  message; every collaborator call is an event of the run. \<open>save_to_obs\<close> returns its
  result dictionary: the success flag and, on failure, the error text. (The text of a
  \<open>ValueError\<close> lists the offending keys in the order of the row; Python lists them
  in the order of a set.)
\<close>

record put_response =
  status :: nat
  errorCode :: string
  errorMessage :: string

fun error_text :: "error \<Rightarrow> string" where
  "error_text (ValueError wrong_fields) =
     ''dict contains fields not in fieldnames: ''
       @ join '', '' (map (\<lambda>f. [CHR 0x27] @ f @ [CHR 0x27]) wrong_fields)"
| "error_text (RuntimeError msg) = msg"

datatype 'a outcome = Raised string | Returned 'a

datatype event = PutContent string | StartCdmJob string

record obs_result =
  success :: bool
  obs_error :: "string option"

definition upload_csv ::
    "(string \<Rightarrow> put_response outcome) \<Rightarrow> error + string \<Rightarrow> event list \<times> obs_result" where
  "upload_csv put_content csv =
     (case csv of
        Inl e \<Rightarrow>
          ([], \<lparr>success = False,
                obs_error = Some (''OBS operation failed: '' @ error_text e)\<rparr>)
      | Inr csv_content \<Rightarrow>
          (case put_content csv_content of
             Raised e \<Rightarrow>
               ([PutContent csv_content],
                \<lparr>success = False, obs_error = Some (''OBS operation failed: '' @ e)\<rparr>)
           | Returned resp \<Rightarrow>
               if status resp < 300
               then ([PutContent csv_content], \<lparr>success = True, obs_error = None\<rparr>)
               else ([PutContent csv_content],
                     \<lparr>success = False,
                      obs_error = Some (''OBS upload failed: '' @ errorCode resp @ '' - ''
                                          @ errorMessage resp)\<rparr>)))"

definition demlevel_save_to_obs ::
    "(string \<Rightarrow> put_response outcome) \<Rightarrow> state_result list \<Rightarrow> event list \<times> obs_result" where
  "demlevel_save_to_obs put_content results =
     upload_csv put_content (build_csv demlevel_extra_cols (flatten_results results))"

text \<open>
  The handler of demlevel\_fg1.py from the upload on: a failed upload raises, which the
  handler's \<open>except\<close> turns into status 500, before the job is started.
\<close>

record reply =
  statusCode :: nat
  reply_success :: bool

definition demlevel_handler ::
    "(string \<Rightarrow> put_response outcome) \<Rightarrow> (string \<Rightarrow> string outcome) \<Rightarrow> string
      \<Rightarrow> state_result list \<Rightarrow> event list \<times> reply" where
  "demlevel_handler put_content start_cdm_job cdm_job_name results =
     (case demlevel_save_to_obs put_content results of
        (events, obs_result) \<Rightarrow>
          if \<not> success obs_result
          then (events, \<lparr>statusCode = 500, reply_success = False\<rparr>)
          else
            (case start_cdm_job cdm_job_name of
               Raised e \<Rightarrow>
                 (events @ [StartCdmJob cdm_job_name],
                  \<lparr>statusCode = 500, reply_success = False\<rparr>)
             | Returned cdm_result \<Rightarrow>
                 (events @ [StartCdmJob cdm_job_name],
                  \<lparr>statusCode = 200, reply_success = True\<rparr>)))"

section \<open>Water-quality pipeline (waterquality\_fg1.py)\<close>

definition STATE_MAPPING_keys :: "int list" where
  "STATE_MAPPING_keys = [1, 2, 3, 4, 5, 6, 7, 8, 9, 10, 11, 12, 13, 14, 15, 16]"

text \<open>
  The loop of \<open>scrape_waterquality\<close> over the states: a result with an error is skipped,
  a result with rows extends \<open>all_rows\<close> and adds every key of every row to the set
  \<open>headers\<close> (kept as a list without duplicates).
\<close>

fun scrape_loop ::
    "(int \<Rightarrow> state_result) \<Rightarrow> int list \<Rightarrow> item list \<Rightarrow> string list
      \<Rightarrow> item list \<times> string list" where
  "scrape_loop fetch_state_water_quality [] all_rows headers = (all_rows, headers)"
| "scrape_loop fetch_state_water_quality (state_id # rest) all_rows headers =
     (let r = fetch_state_water_quality state_id in
      if s_error r \<noteq> None then scrape_loop fetch_state_water_quality rest all_rows headers
      else
        (case s_data r of
           None \<Rightarrow> scrape_loop fetch_state_water_quality rest all_rows headers
         | Some rows \<Rightarrow>
             if rows = [] then scrape_loop fetch_state_water_quality rest all_rows headers
             else scrape_loop fetch_state_water_quality rest (all_rows @ rows)
                    (fold (\<lambda>row hs. fold List.insert (keys row) hs) rows headers)))"

record scrape_outcome =
  sc_success :: bool
  sc_error :: "string option"
  sc_headers :: "string list"
  sc_rows :: "item list"

text \<open>\<open>headers_list = sorted(list(headers))\<close>: strings compare by their characters' codes.\<close>

definition scrape_waterquality :: "(int \<Rightarrow> state_result) \<Rightarrow> scrape_outcome" where
  "scrape_waterquality fetch_state_water_quality =
     (case scrape_loop fetch_state_water_quality STATE_MAPPING_keys [] [] of
        (all_rows, headers) \<Rightarrow>
          if all_rows = []
          then \<lparr>sc_success = False,
                sc_error = Some ''No water quality data found from any state'',
                sc_headers = [], sc_rows = []\<rparr>
          else \<lparr>sc_success = True, sc_error = None,
                sc_headers = sort headers, sc_rows = all_rows\<rparr>)"

text \<open>
  The handler groups the rows by their \<open>state_name\<close> (\<open>"Unknown"\<close> when a row has
  none), in first-seen order of the names, and hands the groups to \<open>save_to_obs\<close>.
\<close>

fun append_to_group :: "pyval \<Rightarrow> item \<Rightarrow> (pyval \<times> item list) list \<Rightarrow> (pyval \<times> item list) list" where
  "append_to_group k row [] = [(k, [row])]"
| "append_to_group k row ((k', rows) # groups) =
     (if k' = k then (k', rows @ [row]) # groups
      else (k', rows) # append_to_group k row groups)"

definition rows_by_state :: "item list \<Rightarrow> (pyval \<times> item list) list" where
  "rows_by_state rows =
     fold (\<lambda>row groups.
             append_to_group
               (case dict_get row ''state_name'' of None \<Rightarrow> Str ''Unknown'' | Some v \<Rightarrow> v)
               row groups)
       rows []"

definition waterquality_extra_cols :: "string list" where
  "waterquality_extra_cols = [''state_id'', ''state_name'']"

definition waterquality_save_to_obs ::
    "(string \<Rightarrow> put_response outcome) \<Rightarrow> (pyval \<times> item list) list \<Rightarrow> event list \<times> obs_result" where
  "waterquality_save_to_obs put_content state_results =
     upload_csv put_content
       (build_csv waterquality_extra_cols (concat (map snd state_results)))"

text \<open>
  The handler: a failed scrape returns status 500 at once; otherwise the CSV is uploaded,
  the upload's outcome is logged, and the job is started; an exception of the job start
  gives status 500, otherwise the status is 200 or, after a failed upload, 206.
\<close>

definition waterquality_handler ::
    "(int \<Rightarrow> state_result) \<Rightarrow> (string \<Rightarrow> put_response outcome) \<Rightarrow> (string \<Rightarrow> string outcome)
      \<Rightarrow> string \<Rightarrow> event list \<times> reply" where
  "waterquality_handler fetch_state_water_quality put_content start_cdm_job job_name =
     (let result = scrape_waterquality fetch_state_water_quality in
      if \<not> sc_success result then ([], \<lparr>statusCode = 500, reply_success = False\<rparr>)
      else
        (case waterquality_save_to_obs put_content (rows_by_state (sc_rows result)) of
           (events, obs_result) \<Rightarrow>
             (case start_cdm_job job_name of
                Raised e \<Rightarrow>
                  (events @ [StartCdmJob job_name],
                   \<lparr>statusCode = 500, reply_success = False\<rparr>)
              | Returned cdm_result \<Rightarrow>
                  (events @ [StartCdmJob job_name],
                   \<lparr>statusCode = (if success obs_result then 200 else 206),
                    reply_success = success obs_result\<rparr>))))"

section \<open>Fixed-header CSV of the older water-level pipeline (waterlevel\_fg.py)\<close>

text \<open>
  \<open>save_to_obs\<close> of waterlevel\_fg.py writes a fixed header, and the rows only when there
  are any.
\<close>

definition waterlevel_fieldnames :: "string list" where
  "waterlevel_fieldnames =
     [''state_name'', ''bil'', ''id_stesen'', ''nama_stesen'', ''daerah'', ''lembangan'',
      ''sub_lembangan'', ''kemaskini_terakhir'', ''aras_air_m'', ''ambang_normal'',
      ''ambang_waspada'', ''ambang_amaran'', ''ambang_bahaya'']"

definition waterlevel_csv_content :: "item list \<Rightarrow> error + string" where
  "waterlevel_csv_content rows =
     (let header = writeheader waterlevel_fieldnames in
      if rows \<noteq> [] then writerows waterlevel_fieldnames rows header else Inr header)"

section \<open>Notions used in the statements\<close>

text \<open>The one request the rainfall handler makes for a state, at every attempt.\<close>

definition the_call :: "string \<Rightarrow> get_call" where
  "the_call url = \<lparr>call_url = url, call_timeout = REQUEST_TIMEOUT\<rparr>"

text \<open>The distinct elements of a list, in the order of their first occurrences.\<close>

definition first_seen :: "'a list \<Rightarrow> 'a list" where
  "first_seen xs = rev (remdups (rev xs))"

section \<open>Sample inputs\<close>

text \<open>
  A navigation table, and a rainfall table with two header rows, one data row and one
  row of a single cell.
\<close>

definition nav_table :: table where
  "nav_table = \<lparr>stripped_strings = [''Laman Utama''], find_all_tr = [[[''Laman Utama'']]]\<rparr>"

definition rain_table :: table where
  "rain_table =
     \<lparr>stripped_strings = [''Bil.'', ''ID Stesen''],
      find_all_tr =
        [[[''Bil.''], [''ID Stesen''], [''Nama Stesen''], [''Daerah''], [''Kemaskini'', ''Terakhir''],
          [''Hujan Harian''], [''Taburan Hujan''], [''Jumlah 1 Jam'']],
         [[''01/11''], [''02/11'']],
         [[''1''], [''J01''], [''Sungai X''], [''Muar''], [''03/11 10:00''], [''0.5''], [''1.0''],
          [''2.5''], [''0.0'']],
         [[''Tiada data'']]]\<rparr>"

text \<open>A table with its two header rows and no data row.\<close>

definition short_table :: table where
  "short_table = \<lparr>stripped_strings = [''Bil.'', ''ID Stesen''],
                   find_all_tr = [[[''Bil.''], [''ID Stesen'']], [[''01/11'']]]\<rparr>"

text \<open>A timestamp, and rows of the new water-level endpoint: one of 13 cells, one of header labels.\<close>

definition sample_now :: string where
  "sample_now = ''2026-11-04T08:00:00+08:00''"

definition wide_row :: "string list" where
  "wide_row = [''1'', ''2224432'', ''Sg. Muar'', ''Muar'', ''Sg. Muar'', ''Sg. Muar'',
               ''04/11/2026 08:00'', ''1.25'', ''2.00'', ''3.00'', ''3.50'', ''4.00'', ''Johor'']"

definition header_like_row :: "string list" where
  "header_like_row = [''No.'', ''Station ID'', ''Station Name'', ''District'', ''Main Basin'',
               ''Sub River Basin'', ''Last Updated'', ''Water Level'', ''Normal'', ''Alert'',
               ''Warning'', ''Danger'']"

text \<open>Rows of the legacy water-level page: a station row, and a row of placeholders.\<close>

definition good_tds :: "td list" where
  "good_tds =
     [\<lparr>get_text = ''1'', find_a = None\<rparr>, \<lparr>get_text = ''2224432'', find_a = None\<rparr>,
      \<lparr>get_text = ''Sg. Muar'', find_a = None\<rparr>, \<lparr>get_text = ''Muar'', find_a = None\<rparr>,
      \<lparr>get_text = ''Sg. Muar'', find_a = None\<rparr>, \<lparr>get_text = ''Sg. Muar'', find_a = None\<rparr>,
      \<lparr>get_text = ''04/11/2026 08:00'', find_a = None\<rparr>,
      \<lparr>get_text = ''1.25'', find_a = Some ''1.25''\<rparr>,
      \<lparr>get_text = ''2.00'', find_a = None\<rparr>, \<lparr>get_text = ''3.00'', find_a = None\<rparr>,
      \<lparr>get_text = ''3.50'', find_a = None\<rparr>, \<lparr>get_text = ''4.00'', find_a = None\<rparr>]"

definition placeholder_tds :: "td list" where
  "placeholder_tds = map (\<lambda>s. \<lparr>get_text = s, find_a = None\<rparr>)
     [''-'', ''-'', ''-'', ''-'', ''-'', ''-'', ''-'', ''-'', ''-'', ''-'', ''-'', ''-'']"

text \<open>
  The two water-level scrapers on sample responses: the legacy page unreachable, without
  station rows, or with one; the new endpoint with one row, or without a table.
\<close>

definition legacy_down :: "string \<Rightarrow> result" where
  "legacy_down = scrape_state_legacy py_digit sample_now (RequestException ''404 Client Error'')"

definition legacy_empty :: "string \<Rightarrow> result" where
  "legacy_empty = scrape_state_legacy py_digit sample_now (Document (Some (Some [placeholder_tds])))"

definition legacy_up :: "string \<Rightarrow> result" where
  "legacy_up = scrape_state_legacy py_digit sample_now (Document (Some (Some [good_tds])))"

definition new_up :: "string \<Rightarrow> result" where
  "new_up = scrape_state_new py_digit sample_now (\<lambda>code. Document (Some [wide_row]))"

definition new_no_table :: "string \<Rightarrow> result" where
  "new_no_table = scrape_state_new py_digit sample_now (\<lambda>code. Document None)"

text \<open>A dam table header of nine columns, and a row of eight cells.\<close>

definition dam_columns :: "string list" where
  "dam_columns = [''Bil'', ''Empangan'', ''Daerah'', ''Paras Semasa (m)'', ''Paras Normal (m)'',
                  ''Paras Kritikal (m)'', ''Simpanan Semalam (%)'', ''Simpanan Semasa (%)'',
                  ''Catatan'']"

definition dam_tds :: "dam_td list" where
  "dam_tds =
     [\<lparr>td_text = ''1'', td_style = ''''\<rparr>, \<lparr>td_text = ''Empangan Bekok'', td_style = ''''\<rparr>,
      \<lparr>td_text = ''Batu Pahat'', td_style = ''''\<rparr>, \<lparr>td_text = ''16.50'', td_style = ''''\<rparr>,
      \<lparr>td_text = ''17.50'', td_style = ''''\<rparr>, \<lparr>td_text = ''12.00'', td_style = ''''\<rparr>,
      \<lparr>td_text = ''82.1'', td_style = ''background:green''\<rparr>,
      \<lparr>td_text = ''81.9'', td_style = ''background-color:orange; color:white''\<rparr>]"

text \<open>Transports: a timeout followed by a 404 response, and a timeout at every attempt.\<close>

definition timeout_then_404 :: "nat \<Rightarrow> get_outcome" where
  "timeout_then_404 attempt =
     (if attempt = 1 then Raises ''Read timed out''
      else Responds \<lparr>status_code = 404, soup = []\<rparr>)"

definition always_timeout :: "nat \<Rightarrow> get_outcome" where
  "always_timeout attempt = Raises ''Read timed out''"

text \<open>
  A water-quality run in which only the first state answers, with one row; an object store
  that refuses the upload; a job start that succeeds.
\<close>

definition wq_fetch :: "int \<Rightarrow> state_result" where
  "wq_fetch state_id =
     (if state_id = 1
      then \<lparr>s_error = None, s_state_id = 1, s_state_name = ''Johor'', s_count = Some 1,
            s_data = Some [[(''STATION_ID'', Str ''CJ01''), (''CRWQI'', Num 85),
                            (''STATE_ID'', Num 1), (''STATE_NAME'', Str ''Johor''),
                            (''state_id'', Num 1), (''state_name'', Str ''Johor'')]]\<rparr>
      else \<lparr>s_error = Some ''Request failed'', s_state_id = state_id,
            s_state_name = ''Unknown'', s_count = None, s_data = None\<rparr>)"

definition put_denied :: "string \<Rightarrow> put_response outcome" where
  "put_denied content =
     Returned \<lparr>status = 403, errorCode = ''AccessDenied'', errorMessage = ''Access Denied''\<rparr>"

definition start_ok :: "string \<Rightarrow> string outcome" where
  "start_ok job_name = Returned ''{}''"

text \<open>A dataset of one rainfall record.\<close>

definition one_item :: "item list" where
  "one_item = [[(''state_code'', Str ''JHR''), (''state_name'', Str ''Johor''), (''Bil.'', Str ''1'')]]"


definition new_empty :: "string \<Rightarrow> result" where
  "new_empty = scrape_state_new py_digit sample_now (\<lambda>code. Document (Some [header_like_row]))"

text \<open>
  A water-quality run in which the first two states answer, each with one row: both rows
  arrive with a \<open>state_id\<close> key of their own in first place, and the second row has a
  key \<open>CLASS\<close> that the first row lacks. An object store that accepts the upload.
\<close>

definition wq_row_a :: item where
  "wq_row_a = [(''state_id'', Num 1), (''STATION_ID'', Str ''CJ01''), (''CRWQI'', Num 85),
               (''STATE_ID'', Num 1), (''STATE_NAME'', Str ''Johor''),
               (''state_name'', Str ''Johor'')]"

definition wq_row_b :: item where
  "wq_row_b = [(''state_id'', Num 2), (''STATION_ID'', Str ''CK01''), (''CRWQI'', Num 70),
               (''CLASS'', Str ''II''), (''STATE_ID'', Num 2), (''STATE_NAME'', Str ''Kedah''),
               (''state_name'', Str ''Kedah'')]"

definition wq_fetch2 :: "int \<Rightarrow> state_result" where
  "wq_fetch2 state_id =
     (if state_id = 1
      then \<lparr>s_error = None, s_state_id = 1, s_state_name = ''Johor'', s_count = Some 1,
            s_data = Some [wq_row_a]\<rparr>
      else if state_id = 2
      then \<lparr>s_error = None, s_state_id = 2, s_state_name = ''Kedah'', s_count = Some 1,
            s_data = Some [wq_row_b]\<rparr>
      else \<lparr>s_error = Some ''Request failed'', s_state_id = state_id,
            s_state_name = ''Unknown'', s_count = None, s_data = None\<rparr>)"

definition put_ok :: "string \<Rightarrow> put_response outcome" where
  "put_ok content = Returned \<lparr>status = 200, errorCode = '''', errorMessage = ''''\<rparr>"

section \<open>The table locator\<close>

lemma scan_tables_None: "scan_tables ts = None \<longleftrightarrow> (\<forall>t \<in> set ts. \<not> table_matches t)"
  by (induction ts) auto

lemma scan_tables_first:
  "i < length ts \<Longrightarrow> table_matches (ts ! i) \<Longrightarrow> (\<forall>j < i. \<not> table_matches (ts ! j))
   \<Longrightarrow> scan_tables ts = Some (ts ! i)"
proof (induction ts arbitrary: i)
  case Nil
  then show ?case by simp
next
  case (Cons t ts)
  show ?case
  proof (cases i)
    case 0
    with Cons.prems show ?thesis by simp
  next
    case (Suc k)
    with Cons.prems have "\<not> table_matches t" by auto
    moreover have "scan_tables ts = Some (ts ! k)"
      using Cons.prems Suc by (intro Cons.IH) auto
    ultimately show ?thesis using Suc by simp
  qed
qed

lemma contains_iff_sublist: "contains hay needle \<longleftrightarrow> sublist needle hay"
  by (induction hay) (auto simp: sublist_Cons_right)

lemma last_two: "drop (length xs - 2) xs = rev (take 2 (rev xs))"
  by (simp add: take_rev)

lemma merge_headers_eq:
  "merge_headers hd1 hd2 = take 5 hd1 @ hd2 @ rev (take 2 (rev hd1))"
  by (simp add: merge_headers_def last_two)

lemma nav_table_no_match: "\<not> table_matches nav_table"
  by (simp add: table_matches_def nav_table_def contains_iff_sublist sublist_code)

lemma rain_table_match: "table_matches rain_table"
  by (simp add: table_matches_def rain_table_def)

text \<open>
  Claim C7. The table locator returns nothing for a document without tables; it returns the
  first table, in document order, whose flattened text contains both \<open>Bil.\<close> and
  \<open>ID Stesen\<close>; when no table matches it returns the last table; and a document without
  tables yields no records.
\<close>

theorem pick_rainfall_table_strategy:
  "pick_rainfall_table [] = None
   \<and> (\<forall>i < length tables. table_matches (tables ! i) \<and> (\<forall>j < i. \<not> table_matches (tables ! j))
         \<longrightarrow> pick_rainfall_table tables = Some (tables ! i))
   \<and> (tables \<noteq> [] \<and> (\<forall>t \<in> set tables. \<not> table_matches t)
         \<longrightarrow> pick_rainfall_table tables = Some (last tables))
   \<and> (table_matches t \<longleftrightarrow>
         sublist ''Bil.'' (join '' '' (stripped_strings t))
         \<and> sublist ''ID Stesen'' (join '' '' (stripped_strings t)))
   \<and> parse_state_page [] state_code state_name = []"
proof (intro conjI allI impI)
  show "pick_rainfall_table [] = None"
    by (simp add: pick_rainfall_table_def)
next
  fix i
  assume "i < length tables"
    and "table_matches (tables ! i) \<and> (\<forall>j < i. \<not> table_matches (tables ! j))"
  then have "scan_tables tables = Some (tables ! i)" "tables \<noteq> []"
    using scan_tables_first by auto
  then show "pick_rainfall_table tables = Some (tables ! i)"
    by (simp add: pick_rainfall_table_def)
next
  assume "tables \<noteq> [] \<and> (\<forall>t \<in> set tables. \<not> table_matches t)"
  then have "scan_tables tables = None" "tables \<noteq> []"
    using scan_tables_None by auto
  then show "pick_rainfall_table tables = Some (last tables)"
    by (simp add: pick_rainfall_table_def)
next
  show "table_matches t \<longleftrightarrow>
         sublist ''Bil.'' (join '' '' (stripped_strings t))
         \<and> sublist ''ID Stesen'' (join '' '' (stripped_strings t))"
    by (simp add: table_matches_def Let_def contains_iff_sublist)
next
  show "parse_state_page [] state_code state_name = []"
    by (simp add: parse_state_page_def pick_rainfall_table_def)
qed

theorem pick_rainfall_table_strategy_witness:
  "pick_rainfall_table [nav_table, rain_table, nav_table] = Some rain_table
   \<and> pick_rainfall_table [nav_table, nav_table] = Some nav_table"
proof -
  let ?ts = "[nav_table, rain_table, nav_table]"
  have "(1::nat) < length ?ts" by simp
  moreover have "table_matches (?ts ! 1) \<and> (\<forall>j < 1. \<not> table_matches (?ts ! j))"
    using nav_table_no_match rain_table_match by simp
  ultimately have "pick_rainfall_table ?ts = Some (?ts ! 1)"
    using pick_rainfall_table_strategy [of ?ts] by blast
  moreover have "pick_rainfall_table [nav_table, nav_table] = Some (last [nav_table, nav_table])"
    using pick_rainfall_table_strategy [of "[nav_table, nav_table]"] nav_table_no_match by simp
  ultimately show ?thesis by simp
qed

section \<open>Which rows become records\<close>

lemma data_rows_loop_filter:
  "data_rows_loop state_code state_name columns rows =
     map (\<lambda>tr. make_item state_code state_name columns (row_texts tr))
       (filter (\<lambda>tr. length tr = length columns) rows)"
  by (induction rows) (auto simp: row_texts_def Let_def)

lemma legacy_rows_filter:
  "legacy_rows digit now state_name rows =
     map (legacy_data_point now state_name)
       (filter (\<lambda>cells. length cells = 12 \<and> isdigit digit (get_text (cells ! 0))) rows)"
  by (induction rows) auto

lemma new_rows_filter:
  "new_rows digit now state_name rows =
     map (new_data_point now state_name)
       (filter (\<lambda>vals. 12 \<le> length vals \<and> isdigit digit (vals ! 0)) rows)"
  by (induction rows) auto

lemma py_digit_1: "isdigit py_digit ''1''"
  by (simp add: isdigit_def py_digit_def)

text \<open>
  Counterexample to claim C3 as stated: the new water-level scraper accepts a row of 13
  cells, one more than the 12 columns it reads.
\<close>

theorem new_rows_accepts_longer_row:
  "length wide_row = 13
   \<and> new_rows py_digit sample_now ''Johor'' [wide_row] = [new_data_point sample_now ''Johor'' wide_row]"
  by (simp add: wide_row_def py_digit_1)

text \<open>
  Claim C3, amended. The rainfall scraper and the legacy water-level scraper accept a row
  only when its cell count equals the column count (the schema's, respectively 12); the new
  water-level scraper accepts every row with at least 12 cells. Rows that fail the test
  are dropped and the other rows of the table are kept, in order. (Both water-level
  scrapers also require a numeric first cell.)
\<close>

theorem row_acceptance_rules:
  "data_rows_loop state_code state_name columns data_rows =
     map (\<lambda>tr. make_item state_code state_name columns (row_texts tr))
       (filter (\<lambda>tr. length tr = length columns) data_rows)
   \<and> legacy_rows digit now state_name legacy_trs =
     map (legacy_data_point now state_name)
       (filter (\<lambda>cells. length cells = 12 \<and> isdigit digit (get_text (cells ! 0))) legacy_trs)
   \<and> new_rows digit now state_name new_trs =
     map (new_data_point now state_name)
       (filter (\<lambda>vals. 12 \<le> length vals \<and> isdigit digit (vals ! 0)) new_trs)"
  by (simp add: data_rows_loop_filter legacy_rows_filter new_rows_filter)

section \<open>The row index of water-level records\<close>



lemma isdigit_chars: "isdigit digit b \<Longrightarrow> b \<noteq> [] \<and> (\<forall>c \<in> set b. digit c)"
  by (simp add: isdigit_def list_all_iff)






lemma not_digit_samples:
  "\<not> isdigit py_digit ''-''" "\<not> isdigit py_digit ''No.''"
  by (simp_all add: isdigit_def py_digit_def)


section \<open>The fallback between the two water-level scrapers\<close>

lemma no_rows_results:
  "\<not> has_rows (error_result msg)" "\<not> has_rows (data_result state_name [])"
  by (simp_all add: has_rows_def error_result_def data_result_def)

lemma sample_scrapers:
  "has_rows (legacy_up ''Kedah'')" "\<not> has_rows (legacy_down ''Kedah'')"
  "has_rows (new_up ''Kedah'')" "\<not> has_rows (new_no_table ''Kedah'')"
  "r_error (legacy_down ''Kedah'') = Some ''Legacy URL request failed for Kedah: 404 Client Error''"
  "r_error (new_no_table ''Kedah'') = Some ''No data table found for Kedah (new URL)''"
  "\<not> has_rows (legacy_empty ''Kedah'')" "r_error (legacy_empty ''Kedah'') = None"
  "\<not> has_rows (new_empty ''Kedah'')" "r_error (new_empty ''Kedah'') = None"
  by (simp_all add: legacy_up_def legacy_down_def legacy_empty_def new_up_def new_no_table_def
        new_empty_def scrape_state_legacy_def scrape_state_new_def STATE_CODE_MAP_def
        has_rows_def data_result_def error_result_def good_tds_def placeholder_tds_def
        wide_row_def header_like_row_def py_digit_1 not_digit_samples)

text \<open>
  Counterexample to claim C2 as stated: when both scrapers return zero rows without an
  error, the reason of the combined failure is the bare text \<open>Unknown error\<close>, which holds
  the reason of neither attempted source; and when the legacy scraper fails with an error
  and the new scraper returns zero rows, the reason names the legacy scraper only.
\<close>

theorem fallback_reason_unknown_error:
  "scrape_state_data legacy_empty new_empty ''Kedah'' =
       ([Legacy, New],
        \<lparr>r_state = Some ''Kedah'', r_count = Some 0, r_data = Some [],
         r_error = Some ''Unknown error''\<rparr>)
   \<and> scrape_state_data legacy_down new_empty ''Kedah'' =
       ([Legacy, New],
        \<lparr>r_state = Some ''Kedah'', r_count = Some 0, r_data = Some [],
         r_error = Some ''Legacy: Legacy URL request failed for Kedah: 404 Client Error''\<rparr>)"
  by (simp add: scrape_state_data_def Let_def sample_scrapers)

text \<open>
  Claim C2, amended. The fallback tries the legacy scraper first and returns its result
  unchanged, without calling the new scraper, when it has at least one row; otherwise it
  calls the new scraper and returns that result unchanged when it has at least one row; the
  combined failure is returned only after both were called, whether they failed with an
  error or returned zero rows. Its reason holds the error text of each scraper that
  reported one, the legacy scraper's first; a scraper that returned zero rows contributes
  no reason, and \<open>Unknown error\<close> stands where the legacy scraper reported none.
\<close>

theorem fallback_order:
  "(has_rows (scrape_legacy state_name) \<longrightarrow>
      scrape_state_data scrape_legacy scrape_new state_name
        = ([Legacy], scrape_legacy state_name))
   \<and> (\<not> has_rows (scrape_legacy state_name) \<and> has_rows (scrape_new state_name) \<longrightarrow>
      scrape_state_data scrape_legacy scrape_new state_name
        = ([Legacy, New], scrape_new state_name))
   \<and> (\<not> has_rows (scrape_legacy state_name) \<and> \<not> has_rows (scrape_new state_name) \<longrightarrow>
      scrape_state_data scrape_legacy scrape_new state_name
        = ([Legacy, New],
           \<lparr>r_state = Some state_name, r_count = Some 0, r_data = Some [],
            r_error = Some
              (case (r_error (scrape_legacy state_name), r_error (scrape_new state_name)) of
                 (Some a, Some b) \<Rightarrow> ''Legacy: '' @ a @ ''; New: '' @ b
               | (Some a, None) \<Rightarrow> ''Legacy: '' @ a
               | (None, Some b) \<Rightarrow> ''Unknown error; New: '' @ b
               | (None, None) \<Rightarrow> ''Unknown error'')\<rparr>))
   \<and> (has_rows r \<longleftrightarrow> (\<exists>n. r_count r = Some n \<and> 1 \<le> n))
   \<and> \<not> has_rows (error_result msg) \<and> \<not> has_rows (data_result state_name [])"
  by (auto simp: scrape_state_data_def Let_def has_rows_def error_result_def data_result_def
           split: option.splits)

theorem fallback_order_witness:
  "scrape_state_data legacy_up new_no_table ''Kedah'' = ([Legacy], legacy_up ''Kedah'')
   \<and> scrape_state_data legacy_down new_up ''Kedah'' = ([Legacy, New], new_up ''Kedah'')
   \<and> scrape_state_data legacy_down new_no_table ''Kedah'' =
       ([Legacy, New],
        \<lparr>r_state = Some ''Kedah'', r_count = Some 0, r_data = Some [],
         r_error = Some (''Legacy: Legacy URL request failed for Kedah: 404 Client Error''
                          @ ''; New: No data table found for Kedah (new URL)'')\<rparr>)
   \<and> scrape_state_data legacy_empty new_no_table ''Kedah'' =
       ([Legacy, New],
        \<lparr>r_state = Some ''Kedah'', r_count = Some 0, r_data = Some [],
         r_error = Some ''Unknown error; New: No data table found for Kedah (new URL)''\<rparr>)"
proof -
  have "scrape_state_data legacy_up new_no_table ''Kedah'' = ([Legacy], legacy_up ''Kedah'')"
    using fallback_order [of legacy_up "''Kedah''" new_no_table] sample_scrapers(1) by blast
  moreover have "scrape_state_data legacy_down new_up ''Kedah'' = ([Legacy, New], new_up ''Kedah'')"
    using fallback_order [of legacy_down "''Kedah''" new_up] sample_scrapers(2,3) by blast
  moreover have "scrape_state_data legacy_down new_no_table ''Kedah'' =
       ([Legacy, New],
        \<lparr>r_state = Some ''Kedah'', r_count = Some 0, r_data = Some [],
         r_error = Some (''Legacy: Legacy URL request failed for Kedah: 404 Client Error''
                          @ ''; New: No data table found for Kedah (new URL)'')\<rparr>)"
    using fallback_order [of legacy_down "''Kedah''" new_no_table] sample_scrapers(2,4,5,6)
    by simp
  moreover have "scrape_state_data legacy_empty new_no_table ''Kedah'' =
       ([Legacy, New],
        \<lparr>r_state = Some ''Kedah'', r_count = Some 0, r_data = Some [],
         r_error = Some ''Unknown error; New: No data table found for Kedah (new URL)''\<rparr>)"
    using fallback_order [of legacy_empty "''Kedah''" new_no_table] sample_scrapers(4,6,7,8)
    by simp
  ultimately show ?thesis by blast
qed

section \<open>The schema of a dual-header table\<close>

lemma pick_single: "pick_rainfall_table [t] = Some t"
  by (simp add: pick_rainfall_table_def)

text \<open>
  Claim C6. For the table the locator picked, fewer than three rows give no records;
  otherwise the schema is the first five labels of the first header row, then all labels
  of the second header row, then the last two labels of the first header row, and the
  records are read from the rows after the two header rows against that schema.
\<close>

theorem dual_header_schema:
  "pick_rainfall_table tables = Some t \<Longrightarrow>
     (length (find_all_tr t) < 3 \<longrightarrow> parse_state_page tables state_code state_name = [])
     \<and> (\<forall>r1 r2 data_rows. find_all_tr t = r1 # r2 # data_rows \<and> data_rows \<noteq> [] \<longrightarrow>
           parse_state_page tables state_code state_name =
             data_rows_loop state_code state_name
               (take 5 (row_texts r1) @ row_texts r2 @ rev (take 2 (rev (row_texts r1))))
               data_rows)"
  by (auto simp: parse_state_page_def Let_def merge_headers_eq)

theorem dual_header_schema_witness:
  "parse_state_page [short_table] ''JHR'' ''Johor'' = []
   \<and> parse_state_page [rain_table] ''JHR'' ''Johor'' =
       [[(''state_code'', Str ''JHR''), (''state_name'', Str ''Johor''), (''Bil.'', Str ''1''),
         (''ID Stesen'', Str ''J01''), (''Nama Stesen'', Str ''Sungai X''), (''Daerah'', Str ''Muar''),
         (''Kemaskini Terakhir'', Str ''03/11 10:00''), (''01/11'', Str ''0.5''),
         (''02/11'', Str ''1.0''), (''Taburan Hujan'', Str ''2.5''), (''Jumlah 1 Jam'', Str ''0.0'')]]"
proof -
  have a: "parse_state_page [short_table] ''JHR'' ''Johor'' = []"
    using dual_header_schema [OF pick_single, of short_table "''JHR''" "''Johor''"]
    by (simp add: short_table_def)
  have "find_all_tr rain_table = hd (find_all_tr rain_table) # hd (tl (find_all_tr rain_table))
          # tl (tl (find_all_tr rain_table)) \<and> tl (tl (find_all_tr rain_table)) \<noteq> []"
    by (simp add: rain_table_def)
  then have "parse_state_page [rain_table] ''JHR'' ''Johor'' =
      data_rows_loop ''JHR'' ''Johor''
        (take 5 (row_texts (hd (find_all_tr rain_table))) @ row_texts (hd (tl (find_all_tr rain_table)))
           @ rev (take 2 (rev (row_texts (hd (find_all_tr rain_table))))))
        (tl (tl (find_all_tr rain_table)))"
    using dual_header_schema [OF pick_single, of rain_table "''JHR''" "''Johor''"] by blast
  then show ?thesis using a
    by (simp add: rain_table_def row_texts_def make_item_def)
qed

section \<open>The fields of a record\<close>

lemma keys_simps: "keys [] = []" "keys ((k, v) # d) = k # keys d"
  by (simp_all add: keys_def)

lemma keys_update: "set (keys (AList.update k v d)) = insert k (set (keys d))"
  using dom_update [of k v d] by (simp add: keys_def)

lemma keys_fold_update:
  "set (keys (fold (\<lambda>(k, v) d. AList.update k (f v) d) ps d0)) = fst ` set ps \<union> set (keys d0)"
  by (induction ps arbitrary: d0) (auto simp: keys_update)

lemma keys_make_item:
  "length tds = length columns \<Longrightarrow>
   set (keys (make_item state_code state_name columns tds))
     = set columns \<union> {''state_code'', ''state_name''}"
proof -
  assume "length tds = length columns"
  then have "fst ` set (zip columns tds) = set columns"
    by (metis map_fst_zip set_map)
  then show ?thesis
    by (auto simp: make_item_def keys_fold_update keys_simps)
qed

lemma keys_map_columns:
  "set (keys (map_columns i cols vals d)) = set (keys d) \<union> set (take (length vals - i) cols)"
proof (induction cols arbitrary: i d)
  case Nil
  then show ?case by simp
next
  case (Cons c cols)
  show ?case
  proof (cases "i < length vals")
    case True
    then have "length vals - i = Suc (length vals - Suc i)" by simp
    then show ?thesis using True by (simp add: Cons.IH keys_update)
  next
    case False
    then show ?thesis by (simp add: Cons.IH)
  qed
qed

lemma keys_dam_data_point:
  "set (keys (dam_data_point state_id state_name base_columns tds))
     = set (take (length tds) base_columns) \<union> set demlevel_extra_cols"
  by (auto simp: dam_data_point_def Let_def keys_update keys_map_columns demlevel_extra_cols_def
        keys_simps)

lemma dam_rows_filter:
  "dam_rows state_id state_name base_columns rows =
     map (dam_data_point state_id state_name base_columns) (filter (\<lambda>tds. 8 \<le> length tds) rows)"
  by (induction rows) auto

text \<open>
  Counterexample to claim C8 as stated: under a header of nine columns, a dam row of eight
  cells becomes a record, and the record has no field for the ninth column.
\<close>

theorem dam_record_misses_column:
  "dam_rows 1 ''Johor'' dam_columns [dam_tds] = [dam_data_point 1 ''Johor'' dam_columns dam_tds]
   \<and> ''Catatan'' \<in> set dam_columns
   \<and> ''Catatan'' \<notin> set (keys (dam_data_point 1 ''Johor'' dam_columns dam_tds))"
  by (simp add: dam_tds_def dam_columns_def dam_data_point_def keys_def)

text \<open>
  Claim C8, amended. Every record of the rainfall scraper has exactly the schema's columns
  and the two state fields as its fields. Every record of the dam-level scraper has as its
  fields the four fixed fields and the schema's columns up to the row's cell count: no
  other field is present, and a column beyond the row's cell count is missing. The
  rainfall scraper drops the rows whose cell count differs from the schema's; the
  dam-level scraper drops only the rows with fewer than eight cells.
\<close>

theorem record_field_sets:
  "(\<forall>item \<in> set (data_rows_loop state_code state_name columns data_rows).
      set (keys item) = set columns \<union> {''state_code'', ''state_name''})
   \<and> data_rows_loop state_code state_name columns data_rows =
       map (\<lambda>tr. make_item state_code state_name columns (row_texts tr))
         (filter (\<lambda>tr. length tr = length columns) data_rows)
   \<and> set (keys (dam_data_point state_id state_name' base_columns tds))
       = set (take (length tds) base_columns)
         \<union> {''Kategori Simpanan Semalam'', ''Kategori Simpanan Semasa'', ''state_id'', ''state_name''}
   \<and> dam_rows state_id state_name' base_columns dam_trs =
       map (dam_data_point state_id state_name' base_columns)
         (filter (\<lambda>tds. 8 \<le> length tds) dam_trs)"
proof (intro conjI ballI)
  fix item
  assume "item \<in> set (data_rows_loop state_code state_name columns data_rows)"
  then obtain tr where "item = make_item state_code state_name columns (row_texts tr)"
    and "length (row_texts tr) = length columns"
    by (auto simp: data_rows_loop_filter row_texts_def)
  then show "set (keys item) = set columns \<union> {''state_code'', ''state_name''}"
    by (simp add: keys_make_item)
next
  show "data_rows_loop state_code state_name columns data_rows =
       map (\<lambda>tr. make_item state_code state_name columns (row_texts tr))
         (filter (\<lambda>tr. length tr = length columns) data_rows)"
    by (rule data_rows_loop_filter)
next
  show "set (keys (dam_data_point state_id state_name' base_columns tds))
       = set (take (length tds) base_columns)
         \<union> {''Kategori Simpanan Semalam'', ''Kategori Simpanan Semasa'', ''state_id'', ''state_name''}"
    by (simp add: keys_dam_data_point demlevel_extra_cols_def)
next
  show "dam_rows state_id state_name' base_columns dam_trs =
       map (dam_data_point state_id state_name' base_columns)
         (filter (\<lambda>tds. 8 \<le> length tds) dam_trs)"
    by (rule dam_rows_filter)
qed

theorem record_field_sets_witness:
  "set (keys (hd (parse_state_page [rain_table] ''JHR'' ''Johor'')))
     = {''Bil.'', ''ID Stesen'', ''Nama Stesen'', ''Daerah'', ''Kemaskini Terakhir'', ''01/11'',
        ''02/11'', ''Taburan Hujan'', ''Jumlah 1 Jam'', ''state_code'', ''state_name''}"
proof -
  let ?cols = "[''Bil.'', ''ID Stesen'', ''Nama Stesen'', ''Daerah'', ''Kemaskini Terakhir'',
                ''01/11'', ''02/11'', ''Taburan Hujan'', ''Jumlah 1 Jam'']"
  let ?rows = "drop 2 (find_all_tr rain_table)"
  have p: "parse_state_page [rain_table] ''JHR'' ''Johor'' = data_rows_loop ''JHR'' ''Johor'' ?cols ?rows"
    by (simp add: parse_state_page_def pick_single rain_table_def row_texts_def
          merge_headers_def)
  have "data_rows_loop ''JHR'' ''Johor'' ?cols ?rows \<noteq> []"
    by (simp add: rain_table_def row_texts_def)
  then have "hd (data_rows_loop ''JHR'' ''Johor'' ?cols ?rows)
      \<in> set (data_rows_loop ''JHR'' ''Johor'' ?cols ?rows)"
    by simp
  then have "set (keys (hd (data_rows_loop ''JHR'' ''Johor'' ?cols ?rows)))
      = set ?cols \<union> {''state_code'', ''state_name''}"
    using record_field_sets [of "''JHR''" "''Johor''" ?cols ?rows] by blast
  then show ?thesis using p by auto
qed

section \<open>Fetching with retries\<close>

lemma retry_loop_all_raise:
  "(\<forall>a \<in> set attempts. \<exists>e. get a = Raises e) \<Longrightarrow>
   retry_loop get url attempts calls = (None, calls @ replicate (length attempts) (the_call url))"
proof (induction attempts arbitrary: calls)
  case Nil
  then show ?case by simp
next
  case (Cons a attempts)
  then obtain e where "get a = Raises e" by auto
  then show ?case using Cons
    by (simp add: the_call_def replicate_app_Cons_same)
qed

lemma retry_loop_first_response:
  "n < length attempts \<Longrightarrow> get (attempts ! n) = Responds resp \<Longrightarrow>
   (\<forall>j < n. \<exists>e. get (attempts ! j) = Raises e) \<Longrightarrow>
   retry_loop get url attempts calls = (Some resp, calls @ replicate (Suc n) (the_call url))"
proof (induction attempts arbitrary: calls n)
  case Nil
  then show ?case by simp
next
  case (Cons a attempts)
  show ?case
  proof (cases n)
    case 0
    with Cons.prems show ?thesis by (simp add: the_call_def)
  next
    case (Suc m)
    from Cons.prems(3) Suc obtain e where e: "get a = Raises e" by fastforce
    have "retry_loop get url attempts (calls @ [the_call url])
            = (Some resp, (calls @ [the_call url]) @ replicate (Suc m) (the_call url))"
      using Cons.prems Suc by (intro Cons.IH) auto
    then show ?thesis using e Suc
      by (simp add: the_call_def replicate_app_Cons_same)
  qed
qed

lemma retry_loop_length:
  "length (snd (retry_loop get url attempts calls)) \<le> length calls + length attempts"
proof (induction attempts arbitrary: calls)
  case Nil
  then show ?case by simp
next
  case (Cons a attempts)
  show ?case
  proof (cases "get a")
    case (Raises e)
    then show ?thesis
      using Cons [of "calls @ [\<lparr>call_url = url, call_timeout = REQUEST_TIMEOUT\<rparr>]"]
      by simp
  next
    case (Responds resp)
    then show ?thesis by simp
  qed
qed

lemma fetch_state_calls:
  "fst (fetch_state get url state_code state_name)
     = snd (retry_loop get url [1 ..< MAX_RETRIES + 1] [])"
  by (simp add: fetch_state_def split: prod.splits option.splits)

text \<open>
  Claim C9. The fetch makes at most three attempts, each with the same URL and the same
  timeout of 5; an attempt that raises is followed by the next attempt, and three raising
  attempts give the state up; the first response ends the attempts whatever its status,
  and a response whose status is not 200 makes the state contribute nothing.
\<close>

theorem fetch_retry_policy:
  "(\<forall>k resp. 1 \<le> k \<and> k \<le> 3 \<and> get k = Responds resp
        \<and> (\<forall>j. 1 \<le> j \<and> j < k \<longrightarrow> (\<exists>e. get j = Raises e)) \<longrightarrow>
      retry_loop get url [1 ..< MAX_RETRIES + 1] []
        = (Some resp, replicate k \<lparr>call_url = url, call_timeout = 5\<rparr>)
      \<and> fst (fetch_state get url state_code state_name)
        = replicate k \<lparr>call_url = url, call_timeout = 5\<rparr>
      \<and> (status_code resp \<noteq> 200 \<longrightarrow> snd (fetch_state get url state_code state_name) = []))
   \<and> ((\<forall>j. 1 \<le> j \<and> j \<le> 3 \<longrightarrow> (\<exists>e. get j = Raises e)) \<longrightarrow>
      fetch_state get url state_code state_name
        = (replicate 3 \<lparr>call_url = url, call_timeout = 5\<rparr>, []))
   \<and> length (fst (fetch_state get url state_code state_name)) \<le> 3"
proof (intro conjI allI impI)
  fix k resp
  assume h: "1 \<le> k \<and> k \<le> 3 \<and> get k = Responds resp
        \<and> (\<forall>j. 1 \<le> j \<and> j < k \<longrightarrow> (\<exists>e. get j = Raises e))"
  obtain n where n: "k = Suc n" using h by (cases k) auto
  have nth: "[1 ..< 4] ! m = Suc m" if "m < 3" for m
    using that by simp
  have "n < length [1 ..< 4]" using h n by simp
  moreover have "get ([1 ..< 4] ! n) = Responds resp"
    using h n nth [of n] by simp
  moreover have "\<forall>j < n. \<exists>e. get ([1 ..< 4] ! j) = Raises e"
    using h n nth by simp
  ultimately have "retry_loop get url [1 ..< 4] [] = (Some resp, [] @ replicate (Suc n) (the_call url))"
    by (rule retry_loop_first_response)
  then show r: "retry_loop get url [1 ..< MAX_RETRIES + 1] []
        = (Some resp, replicate k \<lparr>call_url = url, call_timeout = 5\<rparr>)"
    using n by (simp add: MAX_RETRIES_def the_call_def REQUEST_TIMEOUT_def)
  then show "fst (fetch_state get url state_code state_name)
        = replicate k \<lparr>call_url = url, call_timeout = 5\<rparr>"
    by (simp add: fetch_state_calls)
  show "snd (fetch_state get url state_code state_name) = []" if "status_code resp \<noteq> 200"
    using r that by (simp add: fetch_state_def)
next
  assume "\<forall>j. 1 \<le> j \<and> j \<le> 3 \<longrightarrow> (\<exists>e. get j = Raises e)"
  then have "\<forall>a \<in> set [1 ..< 4]. \<exists>e. get a = Raises e" by simp
  then have "retry_loop get url [1 ..< 4] [] = (None, [] @ replicate (length [1 ..< 4]) (the_call url))"
    by (rule retry_loop_all_raise)
  then show "fetch_state get url state_code state_name
        = (replicate 3 \<lparr>call_url = url, call_timeout = 5\<rparr>, [])"
    by (simp add: fetch_state_def MAX_RETRIES_def the_call_def REQUEST_TIMEOUT_def)
next
  show "length (fst (fetch_state get url state_code state_name)) \<le> 3"
    using retry_loop_length [of get url "[1 ..< MAX_RETRIES + 1]" "[]"]
    by (simp add: fetch_state_calls MAX_RETRIES_def)
qed

theorem fetch_retry_policy_witness:
  "fetch_state timeout_then_404 ''https://publicinfobanjir.water.gov.my/rainfalldata/Johor''
       ''JHR'' ''Johor''
     = (replicate 2 \<lparr>call_url = ''https://publicinfobanjir.water.gov.my/rainfalldata/Johor'',
                      call_timeout = 5\<rparr>, [])
   \<and> fetch_state always_timeout ''https://publicinfobanjir.water.gov.my/rainfalldata/Johor''
       ''JHR'' ''Johor''
     = (replicate 3 \<lparr>call_url = ''https://publicinfobanjir.water.gov.my/rainfalldata/Johor'',
                      call_timeout = 5\<rparr>, [])"
proof -
  let ?url = "''https://publicinfobanjir.water.gov.my/rainfalldata/Johor''"
  let ?resp = "\<lparr>status_code = 404, soup = []\<rparr>"
  have "(1::nat) \<le> 2 \<and> (2::nat) \<le> 3 \<and> timeout_then_404 2 = Responds ?resp
        \<and> (\<forall>j. 1 \<le> j \<and> j < 2 \<longrightarrow> (\<exists>e. timeout_then_404 j = Raises e))"
    by (auto simp: timeout_then_404_def)
  then have "fst (fetch_state timeout_then_404 ?url ''JHR'' ''Johor'')
        = replicate 2 \<lparr>call_url = ?url, call_timeout = 5\<rparr>
      \<and> (status_code ?resp \<noteq> 200 \<longrightarrow> snd (fetch_state timeout_then_404 ?url ''JHR'' ''Johor'') = [])"
    using fetch_retry_policy [of timeout_then_404 ?url "''JHR''" "''Johor''"] by blast
  then have a: "fetch_state timeout_then_404 ?url ''JHR'' ''Johor''
        = (replicate 2 \<lparr>call_url = ?url, call_timeout = 5\<rparr>, [])"
    by (simp add: prod_eq_iff)
  have "\<forall>j. 1 \<le> j \<and> j \<le> 3 \<longrightarrow> (\<exists>e. always_timeout j = Raises e)"
    by (simp add: always_timeout_def)
  then have "fetch_state always_timeout ?url ''JHR'' ''Johor''
        = (replicate 3 \<lparr>call_url = ?url, call_timeout = 5\<rparr>, [])"
    using fetch_retry_policy [of always_timeout ?url "''JHR''" "''Johor''"] by blast
  then show ?thesis using a by simp
qed

section \<open>The column order of the encoders\<close>

lemma remdups_snoc: "remdups (xs @ [x]) = remdups (filter (\<lambda>y. y \<noteq> x) xs) @ [x]"
  by (induction xs) auto

lemma first_seen_Cons: "first_seen (x # xs) = x # first_seen (filter (\<lambda>y. y \<noteq> x) xs)"
  by (simp add: first_seen_def remdups_snoc rev_filter)

lemma first_seen_set: "set (first_seen xs) = set xs" "distinct (first_seen xs)"
  by (simp_all add: first_seen_def)

lemma add_keys_first_seen:
  "add_keys fieldnames ks = fieldnames @ first_seen (filter (\<lambda>k. k \<notin> set fieldnames) ks)"
proof (induction ks arbitrary: fieldnames)
  case Nil
  then show ?case by (simp add: first_seen_def)
next
  case (Cons key ks)
  show ?case
  proof (cases "key \<in> set fieldnames")
    case True
    then show ?thesis by (simp add: Cons.IH)
  next
    case False
    have "filter (\<lambda>k. k \<noteq> key \<and> k \<notin> set fieldnames) ks
            = filter (\<lambda>k. k \<notin> set fieldnames \<and> k \<noteq> key) ks"
      by (rule filter_cong) auto
    then show ?thesis using False
      by (simp add: Cons.IH first_seen_Cons)
  qed
qed

lemma add_keys_append: "add_keys fieldnames (a @ b) = add_keys (add_keys fieldnames a) b"
  by (induction a arbitrary: fieldnames) auto

lemma collect_fieldnames_add_keys:
  "collect_fieldnames fieldnames items = add_keys fieldnames (concat (map keys items))"
  by (induction items arbitrary: fieldnames) (auto simp: add_keys_append)

lemma collect_fieldnames_first_seen:
  "collect_fieldnames [] items = first_seen (concat (map keys items))"
  by (simp add: collect_fieldnames_add_keys add_keys_first_seen)

lemma move_to_front_distinct:
  "distinct fieldnames \<Longrightarrow>
   move_to_front key fieldnames =
     (if key \<in> set fieldnames then key # filter (\<lambda>k. k \<noteq> key) fieldnames else fieldnames)"
  by (auto simp: move_to_front_def distinct_remove1_removeAll
        removeAll_filter_not_eq intro: filter_cong)

lemma csv_fieldnames_eq:
  "csv_fieldnames all_items =
     filter (\<lambda>k. k \<in> set (concat (map keys all_items))) [''state_name'', ''state_code'']
       @ filter (\<lambda>k. k \<noteq> ''state_code'' \<and> k \<noteq> ''state_name'')
           (first_seen (concat (map keys all_items)))"
proof -
  let ?fs = "first_seen (concat (map keys all_items))"
  let ?f1 = "move_to_front ''state_code'' ?fs"
  have d: "distinct ?fs" by (rule first_seen_set)
  have f1: "?f1 = (if ''state_code'' \<in> set ?fs
                   then ''state_code'' # filter (\<lambda>k. k \<noteq> ''state_code'') ?fs else ?fs)"
    using d by (rule move_to_front_distinct)
  then have d1: "distinct ?f1" using d by auto
  have "csv_fieldnames all_items = move_to_front ''state_name'' ?f1"
    by (simp add: csv_fieldnames_def collect_fieldnames_first_seen)
  also have "\<dots> = (if ''state_name'' \<in> set ?f1
                   then ''state_name'' # filter (\<lambda>k. k \<noteq> ''state_name'') ?f1 else ?f1)"
    using d1 by (rule move_to_front_distinct)
  finally show ?thesis
    unfolding f1 using first_seen_set(1) [of "concat (map keys all_items)"]
    by (auto simp: conj_commute intro: filter_cong filter_id_conv [THEN iffD2, symmetric])
qed

lemma fold_insert_set:
  "set (fold List.insert xs ys) = set xs \<union> set ys"
  "distinct ys \<Longrightarrow> distinct (fold List.insert xs ys)"
  by (induction xs arbitrary: ys) auto

lemma fold_rows_headers:
  "set (fold (\<lambda>row hs. fold List.insert (keys row) hs) rows headers)
     = set headers \<union> (\<Union>row \<in> set rows. set (keys row))"
  "distinct headers \<Longrightarrow> distinct (fold (\<lambda>row hs. fold List.insert (keys row) hs) rows headers)"
  by (induction rows arbitrary: headers) (auto simp: fold_insert_set)

lemma scrape_loop_headers:
  "scrape_loop fetch ids all_rows headers = (all_rows', headers') \<Longrightarrow>
   distinct headers \<Longrightarrow> set headers = (\<Union>row \<in> set all_rows. set (keys row)) \<Longrightarrow>
   distinct headers' \<and> set headers' = (\<Union>row \<in> set all_rows'. set (keys row))"
proof (induction ids arbitrary: all_rows headers)
  case Nil
  then show ?case by simp
next
  case (Cons state_id ids)
  show ?case
  proof (cases "s_error (fetch state_id) = None \<and> (\<exists>rows. s_data (fetch state_id) = Some rows \<and> rows \<noteq> [])")
    case True
    then obtain rows where rows: "s_data (fetch state_id) = Some rows" "rows \<noteq> []"
      and ok: "s_error (fetch state_id) = None" by auto
    let ?hs = "fold (\<lambda>row hs. fold List.insert (keys row) hs) rows headers"
    have "scrape_loop fetch ids (all_rows @ rows) ?hs = (all_rows', headers')"
      using Cons.prems(1) rows ok by (simp add: Let_def)
    moreover have "distinct ?hs" using Cons.prems(2) by (rule fold_rows_headers)
    moreover have "set ?hs = (\<Union>row \<in> set (all_rows @ rows). set (keys row))"
      using Cons.prems(3) by (auto simp: fold_rows_headers)
    ultimately show ?thesis by (rule Cons.IH)
  next
    case False
    then have "scrape_loop fetch ids all_rows headers = (all_rows', headers')"
      using Cons.prems(1) by (auto simp: Let_def split: option.splits if_splits)
    then show ?thesis using Cons.prems(2,3) by (rule Cons.IH)
  qed
qed

lemma scrape_waterquality_headers:
  "sc_success (scrape_waterquality fetch) \<Longrightarrow>
   sc_headers (scrape_waterquality fetch)
     = sorted_list_of_set (\<Union>row \<in> set (sc_rows (scrape_waterquality fetch)). set (keys row))"
proof -
  assume ok: "sc_success (scrape_waterquality fetch)"
  obtain all_rows headers where
    loop: "scrape_loop fetch STATE_MAPPING_keys [] [] = (all_rows, headers)"
    by (cases "scrape_loop fetch STATE_MAPPING_keys [] []")
  then have inv: "distinct headers \<and> set headers = (\<Union>row \<in> set all_rows. set (keys row))"
    by (rule scrape_loop_headers) simp_all
  have "all_rows \<noteq> []" using ok loop by (auto simp: scrape_waterquality_def)
  then have "sc_headers (scrape_waterquality fetch) = sort headers"
    and "sc_rows (scrape_waterquality fetch) = all_rows"
    using loop by (simp_all add: scrape_waterquality_def)
  moreover have "distinct headers" using inv by simp
  then have "sort headers = sorted_list_of_set (set headers)"
    by (simp add: sorted_list_of_set_sort_remdups distinct_remdups_id)
  ultimately show ?thesis using inv by simp
qed

lemma writerow_ok:
  "set (keys rowdict) \<subseteq> set fieldnames \<Longrightarrow> \<exists>line. writerow fieldnames rowdict = Inr line"
  by (auto simp: writerow_def list_ex_iff)

lemma writerows_ok:
  "(\<forall>r \<in> set rows. set (keys r) \<subseteq> set fieldnames) \<Longrightarrow>
   \<exists>body. writerows fieldnames rows buf = Inr (buf @ body)"
proof (induction rows arbitrary: buf)
  case Nil
  then show ?case by simp
next
  case (Cons r rows)
  then obtain line where line: "writerow fieldnames r = Inr line"
    using writerow_ok [of r fieldnames] by auto
  from Cons obtain body where "writerows fieldnames rows (buf @ line) = Inr ((buf @ line) @ body)"
    by fastforce
  then show ?case using line by simp
qed

lemma writerow_wrong:
  "\<not> set (keys rowdict) \<subseteq> set fieldnames \<Longrightarrow>
   \<exists>wrong. writerow fieldnames rowdict = Inl (ValueError wrong)"
  by (auto simp: writerow_def list_ex_iff)

lemma writerows_wrong:
  "\<exists>r \<in> set rows. \<not> set (keys r) \<subseteq> set fieldnames \<Longrightarrow>
   \<exists>wrong. writerows fieldnames rows buf = Inl (ValueError wrong)"
proof (induction rows arbitrary: buf)
  case Nil
  then show ?case by simp
next
  case (Cons r rows)
  show ?case
  proof (cases "set (keys r) \<subseteq> set fieldnames")
    case True
    then obtain line where line: "writerow fieldnames r = Inr line"
      using writerow_ok by blast
    from True Cons.prems have "\<exists>r \<in> set rows. \<not> set (keys r) \<subseteq> set fieldnames"
      by auto
    then obtain wrong where "writerows fieldnames rows (buf @ line) = Inl (ValueError wrong)"
      using Cons.IH by blast
    then show ?thesis using line by simp
  next
    case False
    then obtain wrong where "writerow fieldnames r = Inl (ValueError wrong)"
      using writerow_wrong by blast
    then show ?thesis by simp
  qed
qed

text \<open>
  Counterexample to claim C4 as stated: for two water-quality rows, the second with a key
  \<open>CLASS\<close> that the first lacks, the column list of \<open>save_to_obs\<close> is taken from the
  first row alone, with \<open>state_id\<close> and \<open>state_name\<close> moved to its end: it is not the
  union of the keys (\<open>CLASS\<close> is missing), not in first-seen order (\<open>state_id\<close> was
  seen first), and has no state field at the front; the second row then makes the write
  raise, and nothing is uploaded.
\<close>

theorem waterquality_columns_from_first_row:
  "first_row_fieldnames waterquality_extra_cols
       (concat (map snd (rows_by_state (sc_rows (scrape_waterquality wq_fetch2)))))
     = [''STATION_ID'', ''CRWQI'', ''STATE_ID'', ''STATE_NAME'', ''state_id'', ''state_name'']
   \<and> first_seen (concat (map keys (sc_rows (scrape_waterquality wq_fetch2))))
     = [''state_id'', ''STATION_ID'', ''CRWQI'', ''STATE_ID'', ''STATE_NAME'', ''state_name'',
        ''CLASS'']
   \<and> fst (waterquality_save_to_obs put_ok
            (rows_by_state (sc_rows (scrape_waterquality wq_fetch2)))) = []
   \<and> \<not> success (snd (waterquality_save_to_obs put_ok
                     (rows_by_state (sc_rows (scrape_waterquality wq_fetch2)))))"
  by code_simp

text \<open>
  Claim C4, amended. The column list of \<open>items_to_csv\<close> is the union of the keys of all
  records, without duplicates, in first-seen order, except that \<open>state_name\<close> and then
  \<open>state_code\<close> are moved to the front when present. The column list of the
  \<open>save_to_obs\<close> encoders of the water-quality and the dam-level pipeline is the key list
  of the first row alone, in the row's order, except that the extra columns present in
  that row (\<open>state_id\<close> and \<open>state_name\<close>, and for the dam level the two category
  fields before them) are moved to the end; when every row's keys are among these columns
  the text starts with their header line, and when some row has another key the write
  raises and nothing is uploaded. No column list is sorted.
\<close>

theorem csv_column_order:
  "csv_fieldnames all_items =
     filter (\<lambda>k. k \<in> set (concat (map keys all_items))) [''state_name'', ''state_code'']
       @ filter (\<lambda>k. k \<noteq> ''state_code'' \<and> k \<noteq> ''state_name'')
           (first_seen (concat (map keys all_items)))
   \<and> set (csv_fieldnames all_items) = (\<Union>item \<in> set all_items. set (keys item))
   \<and> distinct (csv_fieldnames all_items)
   \<and> first_row_fieldnames extra_cols [] = []
   \<and> first_row_fieldnames extra_cols (first_row # rest) =
        filter (\<lambda>k. k \<notin> set extra_cols) (keys first_row)
          @ filter (\<lambda>c. c \<in> set (keys first_row)) extra_cols
   \<and> waterquality_save_to_obs put_content state_results =
        upload_csv put_content
          (build_csv [''state_id'', ''state_name''] (concat (map snd state_results)))
   \<and> demlevel_save_to_obs put_content results =
        upload_csv put_content
          (build_csv [''Kategori Simpanan Semalam'', ''Kategori Simpanan Semasa'',
                      ''state_id'', ''state_name''] (flatten_results results))
   \<and> (first_row_fieldnames extra_cols rows \<noteq> []
        \<and> (\<forall>row \<in> set rows. set (keys row) \<subseteq> set (first_row_fieldnames extra_cols rows)) \<longrightarrow>
        (\<exists>body. build_csv extra_cols rows
                  = Inr (writeheader (first_row_fieldnames extra_cols rows) @ body)))
   \<and> (first_row_fieldnames extra_cols rows \<noteq> []
        \<and> (\<exists>row \<in> set rows. \<not> set (keys row) \<subseteq> set (first_row_fieldnames extra_cols rows)) \<longrightarrow>
        (\<exists>wrong. build_csv extra_cols rows = Inl (ValueError wrong))
        \<and> fst (upload_csv put_content (build_csv extra_cols rows)) = [])"
proof (intro conjI impI)
  show eq: "csv_fieldnames all_items =
     filter (\<lambda>k. k \<in> set (concat (map keys all_items))) [''state_name'', ''state_code'']
       @ filter (\<lambda>k. k \<noteq> ''state_code'' \<and> k \<noteq> ''state_name'')
           (first_seen (concat (map keys all_items)))"
    by (rule csv_fieldnames_eq)
  show "set (csv_fieldnames all_items) = (\<Union>item \<in> set all_items. set (keys item))"
    unfolding eq by (auto simp: first_seen_set)
  show "distinct (csv_fieldnames all_items)"
    unfolding eq using first_seen_set(2) [of "concat (map keys all_items)"] by auto
  show "first_row_fieldnames extra_cols [] = []"
    by (simp add: first_row_fieldnames_def)
  show "first_row_fieldnames extra_cols (first_row # rest) =
        filter (\<lambda>k. k \<notin> set extra_cols) (keys first_row)
          @ filter (\<lambda>c. c \<in> set (keys first_row)) extra_cols"
    by (simp add: first_row_fieldnames_def)
  show "waterquality_save_to_obs put_content state_results =
        upload_csv put_content
          (build_csv [''state_id'', ''state_name''] (concat (map snd state_results)))"
    by (simp add: waterquality_save_to_obs_def waterquality_extra_cols_def)
  show "demlevel_save_to_obs put_content results =
        upload_csv put_content
          (build_csv [''Kategori Simpanan Semalam'', ''Kategori Simpanan Semasa'',
                      ''state_id'', ''state_name''] (flatten_results results))"
    by (simp add: demlevel_save_to_obs_def demlevel_extra_cols_def)
next
  assume "first_row_fieldnames extra_cols rows \<noteq> []
        \<and> (\<forall>row \<in> set rows. set (keys row) \<subseteq> set (first_row_fieldnames extra_cols rows))"
  then show "\<exists>body. build_csv extra_cols rows
                  = Inr (writeheader (first_row_fieldnames extra_cols rows) @ body)"
    using writerows_ok [of rows "first_row_fieldnames extra_cols rows"]
    by (simp add: build_csv_def Let_def)
next
  assume h: "first_row_fieldnames extra_cols rows \<noteq> []
        \<and> (\<exists>row \<in> set rows. \<not> set (keys row) \<subseteq> set (first_row_fieldnames extra_cols rows))"
  then obtain wrong where
    "writerows (first_row_fieldnames extra_cols rows) rows
       (writeheader (first_row_fieldnames extra_cols rows)) = Inl (ValueError wrong)"
    using writerows_wrong [of rows "first_row_fieldnames extra_cols rows"] by blast
  then have w: "build_csv extra_cols rows = Inl (ValueError wrong)"
    using h by (simp add: build_csv_def Let_def)
  then show "\<exists>wrong. build_csv extra_cols rows = Inl (ValueError wrong)" ..
  show "fst (upload_csv put_content (build_csv extra_cols rows)) = []"
    using w by (simp add: upload_csv_def)
qed

theorem csv_column_order_witness:
  "(\<exists>body. build_csv waterquality_extra_cols [wq_row_a]
       = Inr (''STATION_ID,CRWQI,STATE_ID,STATE_NAME,state_id,state_name''
              @ [CHR 0x0D, CHR 0x0A] @ body))
   \<and> (\<exists>wrong. build_csv waterquality_extra_cols [wq_row_a, wq_row_b] = Inl (ValueError wrong))
   \<and> fst (upload_csv put_ok (build_csv waterquality_extra_cols [wq_row_a, wq_row_b])) = []"
proof -
  have cols: "first_row_fieldnames waterquality_extra_cols [wq_row_a]
      = [''STATION_ID'', ''CRWQI'', ''STATE_ID'', ''STATE_NAME'', ''state_id'', ''state_name'']"
    "first_row_fieldnames waterquality_extra_cols [wq_row_a, wq_row_b]
      = [''STATION_ID'', ''CRWQI'', ''STATE_ID'', ''STATE_NAME'', ''state_id'', ''state_name'']"
    by (simp_all add: first_row_fieldnames_def waterquality_extra_cols_def wq_row_a_def keys_def)
  have header: "writeheader [''STATION_ID'', ''CRWQI'', ''STATE_ID'', ''STATE_NAME'', ''state_id'',
        ''state_name'']
      = ''STATION_ID,CRWQI,STATE_ID,STATE_NAME,state_id,state_name'' @ [CHR 0x0D, CHR 0x0A]"
    by code_simp
  have "first_row_fieldnames waterquality_extra_cols [wq_row_a] \<noteq> []
        \<and> (\<forall>row \<in> set [wq_row_a]. set (keys row)
              \<subseteq> set (first_row_fieldnames waterquality_extra_cols [wq_row_a]))"
    unfolding cols by (simp add: wq_row_a_def keys_def)
  then have "\<exists>body. build_csv waterquality_extra_cols [wq_row_a]
       = Inr (writeheader (first_row_fieldnames waterquality_extra_cols [wq_row_a]) @ body)"
    using csv_column_order [where extra_cols = waterquality_extra_cols and rows = "[wq_row_a]"]
    by blast
  then have a: "\<exists>body. build_csv waterquality_extra_cols [wq_row_a]
       = Inr (''STATION_ID,CRWQI,STATE_ID,STATE_NAME,state_id,state_name''
              @ [CHR 0x0D, CHR 0x0A] @ body)"
    unfolding cols header by simp
  have "first_row_fieldnames waterquality_extra_cols [wq_row_a, wq_row_b] \<noteq> []
        \<and> (\<exists>row \<in> set [wq_row_a, wq_row_b]. \<not> set (keys row)
              \<subseteq> set (first_row_fieldnames waterquality_extra_cols [wq_row_a, wq_row_b]))"
    unfolding cols by (simp add: wq_row_b_def keys_def)
  then have "(\<exists>wrong. build_csv waterquality_extra_cols [wq_row_a, wq_row_b]
                = Inl (ValueError wrong))
        \<and> fst (upload_csv put_ok (build_csv waterquality_extra_cols [wq_row_a, wq_row_b])) = []"
    using csv_column_order [where extra_cols = waterquality_extra_cols and put_content = put_ok
        and rows = "[wq_row_a, wq_row_b]"]
    by blast
  then show ?thesis using a by blast
qed

section \<open>Upload and job start\<close>

lemma upload_csv_events: "StartCdmJob job \<notin> set (fst (upload_csv put_content csv))"
  by (auto simp: upload_csv_def split: sum.splits outcome.splits)

lemma demlevel_handler_gates_trigger:
  "\<not> success (snd (demlevel_save_to_obs put_content results)) \<Longrightarrow>
   fst (demlevel_handler put_content start_cdm_job cdm_job_name results)
     = fst (demlevel_save_to_obs put_content results)
   \<and> StartCdmJob job \<notin> set (fst (demlevel_handler put_content start_cdm_job cdm_job_name results))
   \<and> statusCode (snd (demlevel_handler put_content start_cdm_job cdm_job_name results)) = 500"
proof -
  assume failed: "\<not> success (snd (demlevel_save_to_obs put_content results))"
  obtain events obs_result where
    r: "demlevel_save_to_obs put_content results = (events, obs_result)"
    by (cases "demlevel_save_to_obs put_content results")
  have "StartCdmJob job \<notin> set events"
    using upload_csv_events [of job put_content
        "build_csv demlevel_extra_cols (flatten_results results)"] r
    by (simp add: demlevel_save_to_obs_def)
  then show ?thesis using failed r by (simp add: demlevel_handler_def)
qed

lemma waterquality_handler_always_triggers:
  "sc_success (scrape_waterquality fetch) \<Longrightarrow>
   StartCdmJob job_name
     \<in> set (fst (waterquality_handler fetch put_content start_cdm_job job_name))"
  by (auto simp: waterquality_handler_def Let_def split: prod.splits outcome.splits)

text \<open>
  Claim C1 at a failing run of the water-quality handler: the scrape succeeds, the object
  store answers the upload with status 403, so \<open>save_to_obs\<close> reports failure, and the
  handler still starts the job and replies with status 206.
\<close>

theorem waterquality_handler_triggers_after_failed_upload:
  "\<not> success (snd (waterquality_save_to_obs put_denied
                     (rows_by_state (sc_rows (scrape_waterquality wq_fetch)))))
   \<and> last (fst (waterquality_handler wq_fetch put_denied start_ok
                  ''waterquality_functiongraph_trigger''))
       = StartCdmJob ''waterquality_functiongraph_trigger''
   \<and> snd (waterquality_handler wq_fetch put_denied start_ok
            ''waterquality_functiongraph_trigger'')
       = \<lparr>statusCode = 206, reply_success = False\<rparr>"
  by code_simp

section \<open>Encoding an empty dataset\<close>

lemma items_to_csv_header:
  "all_items \<noteq> [] \<Longrightarrow>
   \<exists>body. items_to_csv all_items = Inr (writeheader (csv_fieldnames all_items) @ body)"
proof -
  assume ne: "all_items \<noteq> []"
  have "set (csv_fieldnames all_items) = (\<Union>item \<in> set all_items. set (keys item))"
    unfolding csv_fieldnames_eq by (auto simp: first_seen_set)
  then have "\<forall>r \<in> set all_items. set (keys r) \<subseteq> set (csv_fieldnames all_items)"
    by auto
  then show ?thesis
    using ne writerows_ok [of all_items "csv_fieldnames all_items"]
    by (simp add: items_to_csv_def Let_def)
qed

text \<open>
  Counterexample to claim C5 as stated: for zero records \<open>items_to_csv\<close> returns the
  empty text, and the dam-level upload builds the empty text: neither has a header line.
\<close>

theorem empty_dataset_has_no_header:
  "items_to_csv [] = Inr [] \<and> build_csv demlevel_extra_cols (flatten_results []) = Inr []"
  by (simp add: items_to_csv_def build_csv_def flatten_results_def first_row_fieldnames_def)

text \<open>
  Claim C5, amended. For zero records \<open>items_to_csv\<close> returns the empty text and the
  dam-level \<open>save_to_obs\<close> uploads the empty text, both without a header line; only the
  \<open>save_to_obs\<close> of waterlevel\_fg.py, whose schema is fixed, writes a header-only text.
  For at least one record the text of \<open>items_to_csv\<close> starts with the header line of its
  column list, and every header line ends with a line break, so it is not empty.
\<close>

theorem empty_dataset_encoding:
  "items_to_csv [] = Inr []
   \<and> (flatten_results results = [] \<longrightarrow>
        build_csv demlevel_extra_cols (flatten_results results) = Inr []
        \<and> fst (demlevel_save_to_obs put_content results) = [PutContent []])
   \<and> waterlevel_csv_content [] =
        Inr (''state_name,bil,id_stesen,nama_stesen,daerah,lembangan,sub_lembangan,''
             @ ''kemaskini_terakhir,aras_air_m,ambang_normal,ambang_waspada,ambang_amaran,''
             @ ''ambang_bahaya'' @ [CHR 0x0D, CHR 0x0A])
   \<and> (all_items \<noteq> [] \<longrightarrow>
        (\<exists>body. items_to_csv all_items = Inr (writeheader (csv_fieldnames all_items) @ body)))
   \<and> writeheader fieldnames \<noteq> []"
proof (intro conjI impI)
  show "items_to_csv [] = Inr []"
    by (simp add: items_to_csv_def)
  show "waterlevel_csv_content [] =
        Inr (''state_name,bil,id_stesen,nama_stesen,daerah,lembangan,sub_lembangan,''
             @ ''kemaskini_terakhir,aras_air_m,ambang_normal,ambang_waspada,ambang_amaran,''
             @ ''ambang_bahaya'' @ [CHR 0x0D, CHR 0x0A])"
    by code_simp
  show "writeheader fieldnames \<noteq> []"
    by (simp add: writeheader_def csv_line_def)
  show "\<exists>body. items_to_csv all_items = Inr (writeheader (csv_fieldnames all_items) @ body)"
    if "all_items \<noteq> []"
    using that by (rule items_to_csv_header)
next
  assume e: "flatten_results results = []"
  show "build_csv demlevel_extra_cols (flatten_results results) = Inr []"
    using e by (simp add: build_csv_def first_row_fieldnames_def)
  then show "fst (demlevel_save_to_obs put_content results) = [PutContent []]"
    by (simp add: demlevel_save_to_obs_def upload_csv_def split: outcome.splits)
qed

theorem empty_dataset_encoding_witness:
  "(\<exists>body. items_to_csv one_item = Inr (''state_name,state_code,Bil.'' @ [CHR 0x0D, CHR 0x0A] @ body))
   \<and> fst (demlevel_save_to_obs put_denied []) = [PutContent []]"
proof -
  have "one_item \<noteq> []" by (simp add: one_item_def)
  then have "\<exists>body. items_to_csv one_item = Inr (writeheader (csv_fieldnames one_item) @ body)"
    using empty_dataset_encoding [of _ _ one_item] by blast
  moreover have "writeheader (csv_fieldnames one_item) = ''state_name,state_code,Bil.'' @ [CHR 0x0D, CHR 0x0A]"
    by code_simp
  moreover have "flatten_results [] = []" by (simp add: flatten_results_def)
  then have "fst (demlevel_save_to_obs put_denied []) = [PutContent []]"
    using empty_dataset_encoding [of "[]" put_denied] by blast
  ultimately show ?thesis by simp
qed

end
